theory Spec2Isabelle
  imports Complex_Main "HOL-Library.Sublist"
begin

section \<open>Resource model (internal/crd)\<close>

text \<open>
  Go strings are byte strings and are modelled as \<open>string\<close>. An \<open>error\<close> value is modelled by
  its message; \<open>fmt.Errorf("...: %w", err)\<close> becomes concatenation with the message of the
  cause. Times are integers (nanoseconds), \<open>float32\<close> is \<open>real\<close>, string maps are association
  lists; none of them is inspected by the code modelled here.
\<close>

type_synonym error = string
type_synonym ResourceKind = string

definition APIVersion :: string where
  "APIVersion = ''xgent.ai/v1''"

definition KindSoul :: ResourceKind where "KindSoul = ''Soul''"
definition KindMind :: ResourceKind where "KindMind = ''Mind''"
definition KindCraft :: ResourceKind where "KindCraft = ''Craft''"
definition KindRobot :: ResourceKind where "KindRobot = ''Robot''"
definition KindTeam :: ResourceKind where "KindTeam = ''Team''"
definition KindCollaboration :: ResourceKind where "KindCollaboration = ''Collaboration''"

record Metadata =
  Name :: string
  Description :: string
  Labels :: "(string \<times> string) list"
  Annotations :: "(string \<times> string) list"
  CreatedAt :: int
  UpdatedAt :: int

record SoulSpec =
  Personality :: string
  Capabilities :: "string list"
  Constraints :: "string list"
  Examples :: "string list"

record Soul =
  soul_APIVersion :: string
  soul_Kind :: ResourceKind
  soul_Metadata :: Metadata
  soul_Spec :: SoulSpec

record MindSpec =
  Provider :: string
  ModelID :: string
  APIKey :: string
  BaseURL :: string
  Temperature :: real
  MaxTokens :: int
  Headers :: "(string \<times> string) list"

record Mind =
  mind_APIVersion :: string
  mind_Kind :: ResourceKind
  mind_Metadata :: Metadata
  mind_Spec :: MindSpec

record ToolConfig =
  tool_Name :: string
  tool_Type :: string
  tool_Config :: "(string \<times> string) list"
  tool_Enabled :: bool

record MCPServer =
  srv_Name :: string
  srv_Command :: string
  srv_Args :: "string list"
  srv_Env :: "(string \<times> string) list"

record MCPConfig =
  Servers :: "MCPServer list"

record CraftSpec =
  Tools :: "ToolConfig list"
  Instructions :: string
  Environment :: "(string \<times> string) list"
  MCP :: "MCPConfig option"

record Craft =
  craft_APIVersion :: string
  craft_Kind :: ResourceKind
  craft_Metadata :: Metadata
  craft_Spec :: CraftSpec

record RobotSpec =
  robot_Soul :: string
  robot_Mind :: string
  robot_Craft :: string
  robot_SessionID :: string
  robot_MaxHistory :: int

record Robot =
  robot_APIVersion :: string
  robot_Kind :: ResourceKind
  robot_Metadata :: Metadata
  robot_Spec :: RobotSpec

record TeamSpec =
  Leader :: string
  Members :: "string list"
  Mode :: string
  team_Craft :: string
  team_Description :: string

record Team =
  team_APIVersion :: string
  team_Kind :: ResourceKind
  team_Metadata :: Metadata
  team_Spec :: TeamSpec

record CollaborationStep =
  step_Name :: string
  step_Agent :: string
  step_DependsOn :: "string list"
  step_Condition :: string

record CollaborationSpec =
  collab_Type :: string
  Steps :: "CollaborationStep list"
  Conditions :: "(string \<times> string) list"

record Collaboration =
  collab_APIVersion :: string
  collab_Kind :: ResourceKind
  collab_Metadata :: Metadata
  collab_Spec :: CollaborationSpec

text \<open>The interface \<open>Resource\<close>: a value together with its dynamic type.\<close>

datatype Resource =
  RSoul Soul | RMind Mind | RCraft Craft | RRobot Robot | RTeam Team
  | RCollaboration Collaboration

fun GetKind :: "Resource \<Rightarrow> ResourceKind" where
  "GetKind (RSoul s) = KindSoul"
| "GetKind (RMind m) = KindMind"
| "GetKind (RCraft c) = KindCraft"
| "GetKind (RRobot r) = KindRobot"
| "GetKind (RTeam t) = KindTeam"
| "GetKind (RCollaboration c) = KindCollaboration"

fun GetMetadata :: "Resource \<Rightarrow> Metadata" where
  "GetMetadata (RSoul s) = soul_Metadata s"
| "GetMetadata (RMind m) = mind_Metadata m"
| "GetMetadata (RCraft c) = craft_Metadata c"
| "GetMetadata (RRobot r) = robot_Metadata r"
| "GetMetadata (RTeam t) = team_Metadata t"
| "GetMetadata (RCollaboration c) = collab_Metadata c"

definition ErrInvalidMetadata :: error where
  "ErrInvalidMetadata = ''invalid metadata''"

definition ErrInvalidSpec :: error where
  "ErrInvalidSpec = ''invalid spec''"

text \<open>\<open>Validate\<close> of each kind; \<open>None\<close> is the \<open>nil\<close> error.\<close>

fun Validate :: "Resource \<Rightarrow> error option" where
  "Validate (RSoul s) =
     (if Name (soul_Metadata s) = [] then Some ErrInvalidMetadata
      else if Personality (soul_Spec s) = [] then Some ErrInvalidSpec
      else None)"
| "Validate (RMind m) =
     (if Name (mind_Metadata m) = [] then Some ErrInvalidMetadata
      else if Provider (mind_Spec m) = [] \<or> ModelID (mind_Spec m) = [] then Some ErrInvalidSpec
      else None)"
| "Validate (RCraft c) =
     (if Name (craft_Metadata c) = [] then Some ErrInvalidMetadata else None)"
| "Validate (RRobot r) =
     (if Name (robot_Metadata r) = [] then Some ErrInvalidMetadata
      else if robot_Soul (robot_Spec r) = [] \<or> robot_Mind (robot_Spec r) = []
        then Some ErrInvalidSpec
      else None)"
| "Validate (RTeam t) =
     (if Name (team_Metadata t) = [] then Some ErrInvalidMetadata
      else if length (Members (team_Spec t)) = 0 then Some ErrInvalidSpec
      else None)"
| "Validate (RCollaboration c) =
     (if Name (collab_Metadata c) = [] then Some ErrInvalidMetadata else None)"

subsection \<open>Parser (internal/crd/parser.go)\<close>

text \<open>
  \<open>yaml.Unmarshal\<close> belongs to the library \<open>gopkg.in/yaml.v3\<close>, not to the repository. It is a
  parameter of the model: one decoder for the anonymous header struct
  \<open>{apiVersion, kind}\<close> and one for each resource struct, each returning the library's error
  or the decoded value.
\<close>

record yaml =
  unmarshal_header :: "string \<Rightarrow> error + (string \<times> ResourceKind)"
  unmarshal_Soul :: "string \<Rightarrow> error + Soul"
  unmarshal_Mind :: "string \<Rightarrow> error + Mind"
  unmarshal_Craft :: "string \<Rightarrow> error + Craft"
  unmarshal_Robot :: "string \<Rightarrow> error + Robot"
  unmarshal_Team :: "string \<Rightarrow> error + Team"
  unmarshal_Collaboration :: "string \<Rightarrow> error + Collaboration"

text \<open>The \<open>switch meta.Kind\<close> of \<open>Parse\<close>: decode the document again at the type of its kind.\<close>

definition Parse_switch :: "yaml \<Rightarrow> ResourceKind \<Rightarrow> string \<Rightarrow> error + Resource" where
  "Parse_switch y kind data =
     (if kind = KindSoul then
        (case unmarshal_Soul y data of
           Inl err \<Rightarrow> Inl (''failed to parse Soul: '' @ err) | Inr soul \<Rightarrow> Inr (RSoul soul))
      else if kind = KindMind then
        (case unmarshal_Mind y data of
           Inl err \<Rightarrow> Inl (''failed to parse Mind: '' @ err) | Inr mind \<Rightarrow> Inr (RMind mind))
      else if kind = KindCraft then
        (case unmarshal_Craft y data of
           Inl err \<Rightarrow> Inl (''failed to parse Craft: '' @ err) | Inr craft \<Rightarrow> Inr (RCraft craft))
      else if kind = KindRobot then
        (case unmarshal_Robot y data of
           Inl err \<Rightarrow> Inl (''failed to parse Robot: '' @ err) | Inr robot \<Rightarrow> Inr (RRobot robot))
      else if kind = KindTeam then
        (case unmarshal_Team y data of
           Inl err \<Rightarrow> Inl (''failed to parse Team: '' @ err) | Inr team \<Rightarrow> Inr (RTeam team))
      else if kind = KindCollaboration then
        (case unmarshal_Collaboration y data of
           Inl err \<Rightarrow> Inl (''failed to parse Collaboration: '' @ err)
         | Inr collab \<Rightarrow> Inr (RCollaboration collab))
      else Inl (''unknown resource kind: '' @ kind))"

definition Parse :: "yaml \<Rightarrow> string \<Rightarrow> error + Resource" where
  "Parse y data =
     (case unmarshal_header y data of
        Inl err \<Rightarrow> Inl (''failed to parse metadata: '' @ err)
      | Inr (apiVersion, kind) \<Rightarrow>
          if apiVersion \<noteq> APIVersion then Inl (''unsupported API version: '' @ apiVersion)
          else
            (case Parse_switch y kind data of
               Inl err \<Rightarrow> Inl err
             | Inr resource \<Rightarrow>
                 (case Validate resource of
                    Some err \<Rightarrow> Inl (''validation failed: '' @ err)
                  | None \<Rightarrow> Inr resource)))"

text \<open>The six known kinds, and the claim's reading of when \<open>Parse\<close> rejects a document.\<close>

definition known_kinds :: "ResourceKind list" where
  "known_kinds = [KindSoul, KindMind, KindCraft, KindRobot, KindTeam, KindCollaboration]"

text \<open>
  Following the specification's words: a resource is invalid when its metadata name is missing,
  or a required field of its spec is missing (Soul personality, Mind provider or model, Robot soul
  or mind, Team members).
\<close>

fun spec_invalid :: "Resource \<Rightarrow> bool" where
  "spec_invalid (RSoul s) = (Name (soul_Metadata s) = [] \<or> Personality (soul_Spec s) = [])"
| "spec_invalid (RMind m) =
     (Name (mind_Metadata m) = [] \<or> Provider (mind_Spec m) = [] \<or> ModelID (mind_Spec m) = [])"
| "spec_invalid (RCraft c) = (Name (craft_Metadata c) = [])"
| "spec_invalid (RRobot r) =
     (Name (robot_Metadata r) = [] \<or> robot_Soul (robot_Spec r) = []
      \<or> robot_Mind (robot_Spec r) = [])"
| "spec_invalid (RTeam t) = (Name (team_Metadata t) = [] \<or> Members (team_Spec t) = [])"
| "spec_invalid (RCollaboration c) = (Name (collab_Metadata c) = [])"

text \<open>
  The notions of the specification are read off the library's decoders, kind by kind, and not
  off the parser. The decoder at the type of a resource returns this resource:
\<close>

fun typed_decode :: "yaml \<Rightarrow> string \<Rightarrow> Resource \<Rightarrow> bool" where
  "typed_decode y data (RSoul s) = (unmarshal_Soul y data = Inr s)"
| "typed_decode y data (RMind m) = (unmarshal_Mind y data = Inr m)"
| "typed_decode y data (RCraft c) = (unmarshal_Craft y data = Inr c)"
| "typed_decode y data (RRobot r) = (unmarshal_Robot y data = Inr r)"
| "typed_decode y data (RTeam t) = (unmarshal_Team y data = Inr t)"
| "typed_decode y data (RCollaboration c) = (unmarshal_Collaboration y data = Inr c)"

text \<open>The text does not deserialize as the struct of the kind.\<close>

definition struct_fails :: "yaml \<Rightarrow> ResourceKind \<Rightarrow> string \<Rightarrow> bool" where
  "struct_fails y kind data =
     ((kind = KindSoul \<and> isl (unmarshal_Soul y data))
      \<or> (kind = KindMind \<and> isl (unmarshal_Mind y data))
      \<or> (kind = KindCraft \<and> isl (unmarshal_Craft y data))
      \<or> (kind = KindRobot \<and> isl (unmarshal_Robot y data))
      \<or> (kind = KindTeam \<and> isl (unmarshal_Team y data))
      \<or> (kind = KindCollaboration \<and> isl (unmarshal_Collaboration y data)))"

text \<open>The text deserializes as the struct of the kind, to a resource that is invalid.\<close>

definition validation_rejects :: "yaml \<Rightarrow> ResourceKind \<Rightarrow> string \<Rightarrow> bool" where
  "validation_rejects y kind data =
     ((kind = KindSoul
        \<and> (case unmarshal_Soul y data of Inl err \<Rightarrow> False | Inr s \<Rightarrow> spec_invalid (RSoul s)))
      \<or> (kind = KindMind
        \<and> (case unmarshal_Mind y data of Inl err \<Rightarrow> False | Inr m \<Rightarrow> spec_invalid (RMind m)))
      \<or> (kind = KindCraft
        \<and> (case unmarshal_Craft y data of Inl err \<Rightarrow> False | Inr c \<Rightarrow> spec_invalid (RCraft c)))
      \<or> (kind = KindRobot
        \<and> (case unmarshal_Robot y data of Inl err \<Rightarrow> False | Inr r \<Rightarrow> spec_invalid (RRobot r)))
      \<or> (kind = KindTeam
        \<and> (case unmarshal_Team y data of Inl err \<Rightarrow> False | Inr t \<Rightarrow> spec_invalid (RTeam t)))
      \<or> (kind = KindCollaboration
        \<and> (case unmarshal_Collaboration y data of
              Inl err \<Rightarrow> False | Inr c \<Rightarrow> spec_invalid (RCollaboration c))))"

text \<open>
  The three causes of rejection that the specification lists: the apiVersion is absent (decoded
  as the empty string, or no header at all) or differs, the kind is unknown, or the validation
  of the kind rejects the resource.
\<close>

definition spec_rejects :: "yaml \<Rightarrow> string \<Rightarrow> bool" where
  "spec_rejects y data =
     (case unmarshal_header y data of
        Inl err \<Rightarrow> True
      | Inr (apiVersion, kind) \<Rightarrow>
          apiVersion \<noteq> APIVersion \<or> kind \<notin> set known_kinds
          \<or> validation_rejects y kind data)"

text \<open>Deserialization fails: of the header, or of the struct of the kind.\<close>

definition decode_fails :: "yaml \<Rightarrow> string \<Rightarrow> bool" where
  "decode_fails y data =
     (case unmarshal_header y data of
        Inl err \<Rightarrow> True
      | Inr (apiVersion, kind) \<Rightarrow> struct_fails y kind data)"






section \<open>Event broadcaster (internal/api/handlers/event_broadcaster.go)\<close>

type_synonym details = "(string \<times> string) list"

record TaskEvent =
  ev_TaskID :: nat
  ev_Type :: string
  ev_Content :: string
  ev_Details :: "details option"
  ev_Progress :: int
  ev_Status :: string
  ev_EventType :: string
  ev_Timestamp :: int

definition maxEventBuffer :: nat where
  "maxEventBuffer = 200"

text \<open>Capacity of a subscriber channel, \<open>make(chan TaskEvent, 200)\<close>.\<close>

definition chan_cap :: nat where
  "chan_cap = 200"

record eventBuffer =
  events :: "TaskEvent list"
  createdAt :: int

text \<open>
  A channel is a reference; the broadcaster's state holds the channels it made, by number, each
  with the events sent to it and not yet received. \<open>subscribers\<close> is the Go map, a missing key
  reading as the empty list. The broadcaster's operations run one at a time (each is taken as
  atomic); the clock reading of \<open>time.Now()\<close> is an argument.
\<close>

type_synonym chan = nat

record EventBroadcaster =
  subscribers :: "nat \<Rightarrow> chan list"
  buffers :: "nat \<rightharpoonup> eventBuffer"
  chans :: "chan \<Rightarrow> TaskEvent list"
  closed_chans :: "chan list"
  next_chan :: chan

definition NewEventBroadcaster :: EventBroadcaster where
  "NewEventBroadcaster =
     \<lparr>subscribers = (\<lambda>t. []), buffers = Map.empty, chans = (\<lambda>c. []), closed_chans = [],
      next_chan = 0\<rparr>"



definition Unsubscribe :: "EventBroadcaster \<Rightarrow> nat \<Rightarrow> chan \<Rightarrow> EventBroadcaster" where
  "Unsubscribe b taskID ch =
     (let subs = subscribers b taskID;
          subs' = (if ch \<in> set subs then remove1 ch subs else subs);
          closed' = (if ch \<in> set subs then ch # closed_chans b else closed_chans b)
      in b\<lparr>subscribers := (subscribers b)(taskID := subs'), closed_chans := closed'\<rparr>)"

text \<open>The non-blocking send \<open>select { case ch <- event: default: }\<close>.\<close>

definition try_send :: "TaskEvent \<Rightarrow> chan \<Rightarrow> (chan \<Rightarrow> TaskEvent list) \<Rightarrow> (chan \<Rightarrow> TaskEvent list)" where
  "try_send event ch cs = (if length (cs ch) < chan_cap then cs(ch := cs ch @ [event]) else cs)"

definition Broadcast :: "EventBroadcaster \<Rightarrow> int \<Rightarrow> TaskEvent \<Rightarrow> EventBroadcaster" where
  "Broadcast b now event0 =
     (let event = event0\<lparr>ev_Timestamp := now\<rparr>;
          buf = (case buffers b (ev_TaskID event) of
                   None \<Rightarrow> \<lparr>events = [], createdAt = now\<rparr>
                 | Some buf \<Rightarrow> buf);
          buf' = (if length (events buf) < maxEventBuffer
                  then buf\<lparr>events := events buf @ [event]\<rparr> else buf);
          subs = subscribers b (ev_TaskID event)
      in b\<lparr>buffers := (buffers b)(ev_TaskID event \<mapsto> buf'),
           chans := fold (try_send event) subs (chans b)\<rparr>)"

definition ClearBuffer :: "EventBroadcaster \<Rightarrow> nat \<Rightarrow> EventBroadcaster" where
  "ClearBuffer b taskID = b\<lparr>buffers := (buffers b)(taskID := None)\<rparr>"

definition bufferTTL :: int where
  "bufferTTL = 10 * 60 * 1000000000"

text \<open>One round of \<open>cleanupLoop\<close>.\<close>

definition cleanup :: "EventBroadcaster \<Rightarrow> int \<Rightarrow> EventBroadcaster" where
  "cleanup b now =
     b\<lparr>buffers := (\<lambda>taskID. case buffers b taskID of
                      None \<Rightarrow> None
                    | Some buf \<Rightarrow> if now - createdAt buf > bufferTTL then None else Some buf)\<rparr>"

text \<open>The subscriber's side, \<open>event := <-eventCh\<close>; \<open>None\<close> when the receive would wait.\<close>

definition Receive :: "EventBroadcaster \<Rightarrow> chan \<Rightarrow> TaskEvent option \<times> EventBroadcaster" where
  "Receive b ch =
     (case chans b ch of
        [] \<Rightarrow> (None, b)
      | event # q \<Rightarrow> (Some event, b\<lparr>chans := (chans b)(ch := q)\<rparr>))"






section \<open>Storage (internal/storage)\<close>

datatype TaskStatus =
  TaskStatusPending | TaskStatusRunning | TaskStatusCompleted | TaskStatusFailed
  | TaskStatusCancelled

text \<open>The conversion \<open>string(status)\<close>.\<close>

fun status_string :: "TaskStatus \<Rightarrow> string" where
  "status_string TaskStatusPending = ''pending''"
| "status_string TaskStatusRunning = ''running''"
| "status_string TaskStatusCompleted = ''completed''"
| "status_string TaskStatusFailed = ''failed''"
| "status_string TaskStatusCancelled = ''cancelled''"


record Task =
  task_ID :: nat
  task_WorkspaceID :: nat
  task_UserID :: nat
  task_Status :: TaskStatus
  task_Title :: string
  task_Description :: string
  task_Prompt :: string
  task_ResourceType :: string
  task_ResourceName :: string
  task_Mode :: string
  task_GitURL :: string
  task_BranchName :: string
  task_Result :: string
  task_Error :: string
  task_Progress :: int
  task_EventLogs :: string
  task_StartedAt :: "int option"
  task_CompletedAt :: "int option"
  task_Duration :: int

text \<open>The message of a log row is the object \<open>{type, content, details?}\<close> that the handler
  serialises with \<open>json.Marshal\<close>; the model keeps the object.\<close>

record log_message =
  lm_type :: string
  lm_content :: string
  lm_details :: "details option"

record TaskLog =
  log_TaskID :: nat
  log_Level :: string
  log_Message :: log_message
  log_EventType :: string

type_synonym ResourceType = string

definition ResourceTypeSoul :: ResourceType where "ResourceTypeSoul = ''Soul''"
definition ResourceTypeMind :: ResourceType where "ResourceTypeMind = ''Mind''"
definition ResourceTypeCraft :: ResourceType where "ResourceTypeCraft = ''Craft''"
definition ResourceTypeRobot :: ResourceType where "ResourceTypeRobot = ''Robot''"
definition ResourceTypeTeam :: ResourceType where "ResourceTypeTeam = ''Team''"

record ResourceRow =
  res_ID :: nat
  res_WorkspaceID :: nat
  res_Type :: ResourceType
  res_Name :: string
  res_Spec :: string

text \<open>
  The world outside the worker: the tables of the store, the process-wide broadcaster and the
  clock. The store is an in-memory table that does not fail; a query that finds no row returns
  the library's "record not found". \<open>saved\<close> is a history, read by no operation: the status of
  every task row saved, in order.
\<close>

record world =
  db_tasks :: "nat \<rightharpoonup> Task"
  db_logs :: "TaskLog list"
  db_resources :: "ResourceRow list"
  broadcaster :: EventBroadcaster
  clock :: int
  saved :: "(nat \<times> TaskStatus) list"

definition Resources_GetByName ::
  "world \<Rightarrow> nat \<Rightarrow> string \<Rightarrow> ResourceType \<Rightarrow> error + ResourceRow" where
  "Resources_GetByName w workspaceID name resourceType =
     (case find (\<lambda>r. res_WorkspaceID r = workspaceID \<and> res_Name r = name
                      \<and> res_Type r = resourceType) (db_resources w) of
        None \<Rightarrow> Inl ''record not found''
      | Some r \<Rightarrow> Inr r)"

definition Tasks_Update :: "world \<Rightarrow> Task \<Rightarrow> error option \<times> world" where
  "Tasks_Update w task =
     (None, w\<lparr>db_tasks := (db_tasks w)(task_ID task \<mapsto> task),
               saved := saved w @ [(task_ID task, task_Status task)]\<rparr>)"

text \<open>The table of tasks is keyed by the primary key: the row found under an id has this id.\<close>

definition Tasks_GetByID :: "world \<Rightarrow> nat \<Rightarrow> error + Task" where
  "Tasks_GetByID w taskID =
     (case db_tasks w taskID of
        None \<Rightarrow> Inl ''record not found''
      | Some t \<Rightarrow> Inr (t\<lparr>task_ID := taskID\<rparr>))"

definition Tasks_AddLog :: "world \<Rightarrow> TaskLog \<Rightarrow> world" where
  "Tasks_AddLog w l = w\<lparr>db_logs := db_logs w @ [l]\<rparr>"

section \<open>The progress callback (internal/api/handlers/task_handler.go)\<close>

text \<open>The \<open>metadata\<close> map of a callback, by the keys the code writes and reads.\<close>

record metadata =
  md_type :: "string option"
  md_details :: "details option"
  md_result :: "string option"

type_synonym ProgressCallback =
  "nat \<Rightarrow> int \<Rightarrow> TaskStatus \<Rightarrow> string \<Rightarrow> metadata option \<Rightarrow> world \<Rightarrow> world"

text \<open>\<open>if callback != nil { callback(...) }\<close>\<close>

definition call_cb ::
  "ProgressCallback option \<Rightarrow> nat \<Rightarrow> int \<Rightarrow> TaskStatus \<Rightarrow> string \<Rightarrow> metadata option
   \<Rightarrow> world \<Rightarrow> world" where
  "call_cb callback taskID progress status message md w =
     (case callback of None \<Rightarrow> w | Some f \<Rightarrow> f taskID progress status message md w)"

text \<open>The closure that \<open>TaskHandler.Create\<close> passes to the orchestrator.\<close>

definition handler_callback :: ProgressCallback where
  "handler_callback taskID progress status message md w =
     (let eventType = (case md of
                         None \<Rightarrow> ''info''
                       | Some m \<Rightarrow> (case md_type m of None \<Rightarrow> ''info'' | Some t \<Rightarrow> t));
          details = (case md of None \<Rightarrow> None | Some m \<Rightarrow> md_details m);
          w1 = w\<lparr>broadcaster := Broadcast (broadcaster w) (clock w)
                  \<lparr>ev_TaskID = taskID, ev_Type = ''log'', ev_Content = message,
                   ev_Details = details, ev_Progress = progress,
                   ev_Status = status_string status, ev_EventType = eventType,
                   ev_Timestamp = 0\<rparr>\<rparr>
      in case Tasks_GetByID w1 taskID of
           Inl err \<Rightarrow> w1
         | Inr t \<Rightarrow>
             (let w2 = snd (Tasks_Update w1 (t\<lparr>task_Progress := progress, task_Status := status\<rparr>))
              in Tasks_AddLog w2
                   \<lparr>log_TaskID = taskID, log_Level = ''info'',
                    log_Message = \<lparr>lm_type = eventType, lm_content = message,
                                   lm_details = details\<rparr>,
                    log_EventType = eventType\<rparr>))"

section \<open>The runner executor (internal/executor, AgnoExecutor)\<close>

text \<open>A call returns, returns an error, or panics.\<close>

datatype 'a outcome = Ok 'a | Err error | Panic string

record AgnoModelConfig =
  am_Provider :: string
  am_ModelID :: string
  am_APIKey :: string
  am_BaseURL :: string

record AgnoSoulConfig =
  as_Name :: string
  as_Personality :: string

record AgnoContextConfig =
  ctx_Cwd :: string
  ctx_GitURL :: string
  ctx_Branch :: string
  ctx_ProjectPath :: string

record AgnoMCPConfig =
  mcp_Name :: string
  mcp_Type :: string
  mcp_Command :: string
  mcp_Args :: "string list"
  mcp_Env :: "(string \<times> string) list"
  mcp_URL :: string
  mcp_Headers :: "(string \<times> string) list"
  mcp_Timeout :: int
  mcp_SSEReadTimeout :: int

record AgnoMemberConfig =
  mem_Name :: string
  mem_Model :: AgnoModelConfig
  mem_Personality :: string
  mem_Description :: string

record AgnoTeamConfig =
  tc_Name :: string
  tc_Mode :: string
  tc_Leader :: "AgnoMemberConfig option"
  tc_Members :: "AgnoMemberConfig list"
  tc_Description :: string

record AgnoConfig =
  cfg_Type :: string
  cfg_Prompt :: string
  cfg_Model :: AgnoModelConfig
  cfg_Soul :: AgnoSoulConfig
  cfg_Team :: "AgnoTeamConfig option"
  cfg_Context :: AgnoContextConfig
  cfg_SessionID :: string
  cfg_MCPTools :: "AgnoMCPConfig list"
  cfg_Stream :: bool
  cfg_Debug :: bool
  cfg_DebugLevel :: int
  cfg_ReuseSession :: bool

text \<open>The struct that a line of the runner's output is decoded into.\<close>

record event =
  event_Type :: string
  event_Content :: string
  event_Details :: "details option"

text \<open>
  What \<open>runAgnoScript\<close> sees of the subprocess: the errors of creating the pipes and of
  starting it, the lines the scanner reads from its output, and the error of \<open>cmd.Wait\<close>
  (none exactly when it exits with code 0). Its error output is only logged.
\<close>

record subprocess =
  stdin_pipe_err :: "error option"
  stdout_pipe_err :: "error option"
  stderr_pipe_err :: "error option"
  start_err :: "error option"
  stdout_lines :: "string list"
  wait_err :: "error option"

text \<open>
  The environment of the executor, as parameters: the YAML library, \<open>json.Unmarshal\<close> into
  the event struct (\<open>None\<close> when it returns an error), the runner script's path and whether it
  exists, and the behaviour of the subprocess given the configuration written to its input.
\<close>

record env =
  yaml_lib :: yaml
  json_event :: "string \<Rightarrow> event option"
  script_path :: string
  script_exists :: bool
  run :: "AgnoConfig \<Rightarrow> subprocess"

text \<open>Decimal digits of a number, for \<open>%d\<close>.\<close>

fun show_nat :: "nat \<Rightarrow> string" where
  "show_nat n =
     (if n < 10 then [''0123456789'' ! n]
      else show_nat (n div 10) @ [''0123456789'' ! (n mod 10)])"

declare show_nat.simps [simp del]

text \<open>\<open>strings.Join(xs, "\n")\<close>\<close>

fun join_nl :: "string list \<Rightarrow> string" where
  "join_nl [] = []"
| "join_nl [x] = x"
| "join_nl (x # y # ys) = x @ [CHR 0x0A] @ join_nl (y # ys)"

definition md_of :: "string \<Rightarrow> details option \<Rightarrow> metadata" where
  "md_of t d = \<lparr>md_type = Some t, md_details = d, md_result = None\<rparr>"

text \<open>
  The cases of the \<open>switch event.Type\<close> that report progress: the progress, the message and
  the metadata of the callback's call. Every such call carries the status running.
\<close>

definition event_call :: "event \<Rightarrow> (int \<times> string \<times> metadata) option" where
  "event_call ev =
     (let t = event_Type ev; c = event_Content ev; d = event_Details ev in
      if t = ''started'' then Some (20, ''Agent started'', md_of ''started'' None)
      else if t = ''content'' then Some (50, c, md_of ''content'' None)
      else if t = ''run_started'' \<or> t = ''team_run_started'' then Some (30, c, md_of t None)
      else if t = ''run_completed'' \<or> t = ''team_run_completed'' then Some (90, c, md_of t None)
      else if t = ''tool_call_started'' \<or> t = ''member_tool_started''
        then Some (60, ''Tool call started'', md_of t d)
      else if t = ''tool_call_completed'' \<or> t = ''member_tool_completed''
        then Some (70, ''Tool call completed'', md_of t d)
      else if t = ''reasoning'' then Some (55, ''Reasoning'', md_of ''reasoning'' d)
      else if t = ''mcp_connected'' then Some (25, c, md_of ''mcp_connected'' None)
      else if t = ''thinking_step'' then Some (40, c, md_of ''thinking_step'' d)
      else if t = ''session_reused'' then Some (25, c, md_of ''session_reused'' None)
      else if t = ''git_downloaded'' then Some (15, c, md_of ''git_downloaded'' d)
      else None)"

text \<open>
  The read loop \<open>for scanner.Scan()\<close> with its variables \<open>fullContent\<close>, \<open>lastError\<close>
  and \<open>eventLogs\<close>: it ends at the end of the output, or returns from the function at a
  \<open>cancelled\<close> event.
\<close>

datatype scan_result =
  Return_cancelled string "string list" world
  | Loop_done string string "string list" world

fun scan ::
  "(string \<Rightarrow> event option) \<Rightarrow> ProgressCallback option \<Rightarrow> nat \<Rightarrow> string list
   \<Rightarrow> string \<Rightarrow> string \<Rightarrow> string list \<Rightarrow> world \<Rightarrow> scan_result" where
  "scan dec callback taskID [] fullContent lastError eventLogs w =
     Loop_done fullContent lastError eventLogs w"
| "scan dec callback taskID (line # lines) fullContent lastError eventLogs w =
     (case dec line of
        None \<Rightarrow> scan dec callback taskID lines fullContent lastError eventLogs w
      | Some ev \<Rightarrow>
          if event_Type ev = ''cancelled''
            then Return_cancelled fullContent (eventLogs @ [line]) w
          else if event_Type ev = ''error''
            then scan dec callback taskID lines fullContent (event_Content ev)
                   (eventLogs @ [line]) w
          else
            scan dec callback taskID lines
              (if event_Type ev = ''content'' then fullContent @ event_Content ev
               else fullContent)
              lastError (eventLogs @ [line])
              (case event_call ev of
                 None \<Rightarrow> w
               | Some (progress, message, md) \<Rightarrow>
                   call_cb callback taskID progress TaskStatusRunning message (Some md) w))"

definition runAgnoScript ::
  "env \<Rightarrow> AgnoConfig \<Rightarrow> nat \<Rightarrow> ProgressCallback option \<Rightarrow> world
   \<Rightarrow> (string \<times> string) outcome \<times> world" where
  "runAgnoScript e config taskID callback w =
     (if \<not> script_exists e
        then (Err (''agno runner script not found at '' @ script_path e), w)
      else
        (let p = run e config in
         case stdin_pipe_err p of
           Some err \<Rightarrow> (Err (''failed to create stdin pipe: '' @ err), w)
         | None \<Rightarrow>
         (case stdout_pipe_err p of
           Some err \<Rightarrow> (Err (''failed to create stdout pipe: '' @ err), w)
         | None \<Rightarrow>
         (case stderr_pipe_err p of
           Some err \<Rightarrow> (Err (''failed to create stderr pipe: '' @ err), w)
         | None \<Rightarrow>
         (case start_err p of
           Some err \<Rightarrow> (Err (''failed to start python script: '' @ err), w)
         | None \<Rightarrow>
         (case scan (json_event e) callback taskID (stdout_lines p) [] [] [] w of
            Return_cancelled fullContent eventLogs w' \<Rightarrow>
              (Ok (fullContent, join_nl eventLogs), w')
          | Loop_done fullContent lastError eventLogs w' \<Rightarrow>
              (case wait_err p of
                 Some err \<Rightarrow>
                   if lastError \<noteq> []
                     then (Err (''python script error: '' @ lastError), w')
                   else (Err (''python script finished with error: '' @ err), w')
               | None \<Rightarrow> (Ok (fullContent, join_nl eventLogs), w'))))))))"

text \<open>
  \<open>soulDef, _ := parser.Parse(...); soul := soulDef.(*crd.Soul)\<close>: the error of \<open>Parse\<close> is
  dropped, and the type assertion panics on the nil interface that \<open>Parse\<close> returns with an
  error, and on a resource of another kind. The same for the Mind.
\<close>

fun assert_Soul :: "error + Resource \<Rightarrow> Soul outcome" where
  "assert_Soul (Inl err) = Panic ''interface conversion: crd.Resource is nil, not *crd.Soul''"
| "assert_Soul (Inr (RSoul s)) = Ok s"
| "assert_Soul (Inr r) =
     Panic (''interface conversion: crd.Resource is *crd.'' @ GetKind r @ '', not *crd.Soul'')"

fun assert_Mind :: "error + Resource \<Rightarrow> Mind outcome" where
  "assert_Mind (Inl err) = Panic ''interface conversion: crd.Resource is nil, not *crd.Mind''"
| "assert_Mind (Inr (RMind m)) = Ok m"
| "assert_Mind (Inr r) =
     Panic (''interface conversion: crd.Resource is *crd.'' @ GetKind r @ '', not *crd.Mind'')"

definition model_of :: "Mind \<Rightarrow> AgnoModelConfig" where
  "model_of mind =
     \<lparr>am_Provider = Provider (mind_Spec mind), am_ModelID = ModelID (mind_Spec mind),
      am_APIKey = APIKey (mind_Spec mind), am_BaseURL = BaseURL (mind_Spec mind)\<rparr>"

definition loadMCPTools :: "env \<Rightarrow> world \<Rightarrow> nat \<Rightarrow> string \<Rightarrow> AgnoMCPConfig list" where
  "loadMCPTools e w workspaceID craftName =
     (case Resources_GetByName w workspaceID craftName ResourceTypeCraft of
        Inl err \<Rightarrow> []
      | Inr craftResource \<Rightarrow>
          (case Parse (yaml_lib e) (res_Spec craftResource) of
             Inl err \<Rightarrow> []
           | Inr (RCraft craft) \<Rightarrow>
               (case MCP (craft_Spec craft) of
                  None \<Rightarrow> []
                | Some mcp \<Rightarrow>
                    map (\<lambda>server.
                          \<lparr>mcp_Name = srv_Name server, mcp_Type = ''stdio'',
                           mcp_Command = srv_Command server, mcp_Args = srv_Args server,
                           mcp_Env = srv_Env server, mcp_URL = [], mcp_Headers = [],
                           mcp_Timeout = 300, mcp_SSEReadTimeout = 0\<rparr>)
                      (Servers mcp))
           | Inr r \<Rightarrow> []))"

definition no_soul :: AgnoSoulConfig where
  "no_soul = \<lparr>as_Name = [], as_Personality = []\<rparr>"

definition context_of :: "Task \<Rightarrow> AgnoContextConfig" where
  "context_of task =
     \<lparr>ctx_Cwd = [], ctx_GitURL = task_GitURL task, ctx_Branch = task_BranchName task,
      ctx_ProjectPath = []\<rparr>"

text \<open>\<open>executeBot\<close> up to the configuration it hands to the runner: the resolution of the
  robot, its Soul, its Mind and its Craft.\<close>

definition executeBot_config :: "env \<Rightarrow> Task \<Rightarrow> world \<Rightarrow> AgnoConfig outcome" where
  "executeBot_config e task w =
     (case Resources_GetByName w (task_WorkspaceID task) (task_ResourceName task)
             ResourceTypeRobot of
        Inl err \<Rightarrow> Err (''failed to load robot: '' @ err)
      | Inr robotResource \<Rightarrow>
     (case Parse (yaml_lib e) (res_Spec robotResource) of
        Inl err \<Rightarrow> Err (''failed to parse robot spec: '' @ err)
      | Inr resource \<Rightarrow>
     (case resource of
        RRobot robot \<Rightarrow>
          (case Resources_GetByName w (task_WorkspaceID task) (robot_Soul (robot_Spec robot))
                  ResourceTypeSoul of
             Inl err \<Rightarrow> Err (''failed to load soul: '' @ err)
           | Inr soulResource \<Rightarrow>
          (case assert_Soul (Parse (yaml_lib e) (res_Spec soulResource)) of
             Panic p \<Rightarrow> Panic p
           | Err err \<Rightarrow> Err err
           | Ok soul \<Rightarrow>
          (case Resources_GetByName w (task_WorkspaceID task) (robot_Mind (robot_Spec robot))
                  ResourceTypeMind of
             Inl err \<Rightarrow> Err (''failed to load mind: '' @ err)
           | Inr mindResource \<Rightarrow>
          (case assert_Mind (Parse (yaml_lib e) (res_Spec mindResource)) of
             Panic p \<Rightarrow> Panic p
           | Err err \<Rightarrow> Err err
           | Ok mind \<Rightarrow>
               Ok
                 (\<lparr>cfg_Type = ''robot'', cfg_Prompt = task_Prompt task,
                  cfg_Model = model_of mind,
                  cfg_Soul = \<lparr>as_Name = Name (robot_Metadata robot),
                              as_Personality = Personality (soul_Spec soul)\<rparr>,
                  cfg_Team = None, cfg_Context = context_of task,
                  cfg_SessionID = ''task-'' @ show_nat (task_ID task),
                  cfg_MCPTools =
                    (if robot_Craft (robot_Spec robot) \<noteq> []
                     then loadMCPTools e w (task_WorkspaceID task) (robot_Craft (robot_Spec robot))
                     else []),
                  cfg_Stream = True, cfg_Debug = False, cfg_DebugLevel = 2,
                  cfg_ReuseSession = True\<rparr>)))))
      | _ \<Rightarrow> Err ''invalid robot resource'')))"

definition executeBot ::
  "env \<Rightarrow> Task \<Rightarrow> ProgressCallback option \<Rightarrow> world \<Rightarrow> (string \<times> string) outcome \<times> world" where
  "executeBot e task callback w =
     (case executeBot_config e task w of
        Err err \<Rightarrow> (Err err, w)
      | Panic p \<Rightarrow> (Panic p, w)
      | Ok config \<Rightarrow> runAgnoScript e config (task_ID task) callback w)"

definition loadRobotAsMember ::
  "env \<Rightarrow> world \<Rightarrow> nat \<Rightarrow> string \<Rightarrow> (AgnoMemberConfig \<times> Mind) outcome" where
  "loadRobotAsMember e w workspaceID robotName =
     (case Resources_GetByName w workspaceID robotName ResourceTypeRobot of
        Inl err \<Rightarrow> Err (''failed to load robot: '' @ err)
      | Inr robotResource \<Rightarrow>
     (case Parse (yaml_lib e) (res_Spec robotResource) of
        Inl err \<Rightarrow> Err (''failed to parse robot spec: '' @ err)
      | Inr resource \<Rightarrow>
     (case resource of
        RRobot robot \<Rightarrow>
          (case Resources_GetByName w workspaceID (robot_Soul (robot_Spec robot))
                  ResourceTypeSoul of
             Inl err \<Rightarrow> Err (''failed to load soul: '' @ err)
           | Inr soulResource \<Rightarrow>
          (case assert_Soul (Parse (yaml_lib e) (res_Spec soulResource)) of
             Panic p \<Rightarrow> Panic p
           | Err err \<Rightarrow> Err err
           | Ok soul \<Rightarrow>
          (case Resources_GetByName w workspaceID (robot_Mind (robot_Spec robot))
                  ResourceTypeMind of
             Inl err \<Rightarrow> Err (''failed to load mind: '' @ err)
           | Inr mindResource \<Rightarrow>
          (case assert_Mind (Parse (yaml_lib e) (res_Spec mindResource)) of
             Panic p \<Rightarrow> Panic p
           | Err err \<Rightarrow> Err err
           | Ok mind \<Rightarrow>
               Ok (\<lparr>mem_Name = Name (robot_Metadata robot), mem_Model = model_of mind,
                    mem_Personality = Personality (soul_Spec soul), mem_Description = []\<rparr>,
                   mind)))))
      | _ \<Rightarrow> Err ''invalid robot resource'')))"

text \<open>
  The loop over \<open>teamDef.Spec.Members\<close> with its variables \<open>teamConfig.Members\<close> and
  \<open>leaderMind\<close>: a member that returns an error is logged as a warning and skipped.
\<close>

fun loadMembers ::
  "env \<Rightarrow> world \<Rightarrow> nat \<Rightarrow> string list \<Rightarrow> AgnoMemberConfig list \<Rightarrow> Mind option
   \<Rightarrow> (AgnoMemberConfig list \<times> Mind option) outcome" where
  "loadMembers e w workspaceID [] members leaderMind = Ok (members, leaderMind)"
| "loadMembers e w workspaceID (memberName # rest) members leaderMind =
     (case loadRobotAsMember e w workspaceID memberName of
        Err err \<Rightarrow> loadMembers e w workspaceID rest members leaderMind
      | Panic p \<Rightarrow> Panic p
      | Ok (member, mindDef) \<Rightarrow>
          loadMembers e w workspaceID rest (members @ [member])
            (case leaderMind of None \<Rightarrow> Some mindDef | Some m \<Rightarrow> Some m))"

text \<open>The leader of a team, when one is named; its failure to load is returned.\<close>

definition loadLeader ::
  "env \<Rightarrow> world \<Rightarrow> nat \<Rightarrow> string \<Rightarrow> (AgnoMemberConfig option \<times> Mind option) outcome" where
  "loadLeader e w workspaceID leader =
     (if leader \<noteq> [] then
        (case loadRobotAsMember e w workspaceID leader of
           Err err \<Rightarrow> Err (''failed to load leader robot: '' @ err)
         | Panic p \<Rightarrow> Panic p
         | Ok (leaderMember, leaderMindDef) \<Rightarrow> Ok (Some leaderMember, Some leaderMindDef))
      else Ok (None, None))"

text \<open>\<open>executeTeam\<close> up to the configuration it hands to the runner.\<close>

definition executeTeam_config :: "env \<Rightarrow> Task \<Rightarrow> world \<Rightarrow> AgnoConfig outcome" where
  "executeTeam_config e task w =
     (case Resources_GetByName w (task_WorkspaceID task) (task_ResourceName task)
             ResourceTypeTeam of
        Inl err \<Rightarrow> Err (''failed to load team: '' @ err)
      | Inr teamResource \<Rightarrow>
     (case Parse (yaml_lib e) (res_Spec teamResource) of
        Inl err \<Rightarrow> Err (''failed to parse team spec: '' @ err)
      | Inr resource \<Rightarrow>
     (case resource of
        RTeam teamDef \<Rightarrow>
          (case loadLeader e w (task_WorkspaceID task) (Leader (team_Spec teamDef)) of
             Err err \<Rightarrow> Err err
           | Panic p \<Rightarrow> Panic p
           | Ok (leader, leaderMind0) \<Rightarrow>
          (case loadMembers e w (task_WorkspaceID task) (Members (team_Spec teamDef)) []
                  leaderMind0 of
             Err err \<Rightarrow> Err err
           | Panic p \<Rightarrow> Panic p
           | Ok (members, leaderMind) \<Rightarrow>
               if length members = 0 \<and> leader = None
                 then Err ''team has no valid members or leader''
               else
                 (case leaderMind of
                    None \<Rightarrow> Err ''no mind found for team''
                  | Some mind \<Rightarrow>
                      Ok
                        (\<lparr>cfg_Type = ''team'', cfg_Prompt = task_Prompt task,
                         cfg_Model = model_of mind, cfg_Soul = no_soul,
                         cfg_Team = Some \<lparr>tc_Name = Name (team_Metadata teamDef),
                                          tc_Mode = Mode (team_Spec teamDef),
                                          tc_Leader = leader, tc_Members = members,
                                          tc_Description = team_Description (team_Spec teamDef)\<rparr>,
                         cfg_Context = context_of task,
                         cfg_SessionID = ''task-'' @ show_nat (task_ID task),
                         cfg_MCPTools = [],
                         cfg_Stream = True, cfg_Debug = False, cfg_DebugLevel = 2,
                         cfg_ReuseSession = True\<rparr>))))
      | _ \<Rightarrow> Err ''invalid team resource'')))"

definition executeTeam ::
  "env \<Rightarrow> Task \<Rightarrow> ProgressCallback option \<Rightarrow> world \<Rightarrow> (string \<times> string) outcome \<times> world" where
  "executeTeam e task callback w =
     (case executeTeam_config e task w of
        Err err \<Rightarrow> (Err err, w)
      | Panic p \<Rightarrow> (Panic p, w)
      | Ok config \<Rightarrow> runAgnoScript e config (task_ID task) callback w)"

text \<open>
  \<open>Execute\<close> works on the task struct of the worker (\<open>task\<close>, returned as updated) and on the
  store. A panic of the resource functions leaves \<open>Execute\<close> at once: nothing after the
  \<open>switch\<close> runs.
\<close>

definition Execute ::
  "env \<Rightarrow> Task \<Rightarrow> ProgressCallback option \<Rightarrow> world \<Rightarrow> unit outcome \<times> Task \<times> world" where
  "Execute e task0 callback w0 =
     (let task1 = task0\<lparr>task_Status := TaskStatusRunning, task_StartedAt := Some (clock w0)\<rparr> in
      case Tasks_Update w0 task1 of
        (Some err, w1) \<Rightarrow> (Err (''failed to update task status: '' @ err), task1, w1)
      | (None, w1) \<Rightarrow>
     (let w2 = call_cb callback (task_ID task1) 10 TaskStatusRunning ''Task started'' None w1;
          (res, w3) =
            (if task_ResourceType task1 = ''bot'' \<or> task_ResourceType task1 = ''robot''
               then executeBot e task1 callback w2
             else if task_ResourceType task1 = ''team''
               then executeTeam e task1 callback w2
             else (Err (''unsupported resource type: '' @ task_ResourceType task1), w2))
      in case res of
           Panic p \<Rightarrow> (Panic p, task1, w3)
         | Err err \<Rightarrow>
             (let task2 = task1\<lparr>task_CompletedAt := Some (clock w3),
                                task_Duration := (clock w3 - clock w0) div 1000000,
                                task_Status := TaskStatusFailed, task_Error := err\<rparr>;
                  w4 = snd (Tasks_Update w3 task2);
                  w5 = call_cb callback (task_ID task2) 0 TaskStatusFailed err None w4
              in (Err err, task2, w5))
         | Ok (result, eventLogs) \<Rightarrow>
             (let task2 = task1\<lparr>task_CompletedAt := Some (clock w3),
                                task_Duration := (clock w3 - clock w0) div 1000000,
                                task_Status := TaskStatusCompleted, task_Result := result,
                                task_Progress := 100, task_EventLogs := eventLogs\<rparr>;
                  w4 = snd (Tasks_Update w3 task2);
                  w5 = call_cb callback (task_ID task2) 100 TaskStatusCompleted
                         ''Task completed''
                         (Some \<lparr>md_type = None, md_details = None, md_result = Some result\<rparr>) w4
              in (Ok (), task2, w5))))"

section \<open>Task queue (internal/orchestrator/queue.go)\<close>

text \<open>
  An item holds the task and the callback; the shared context is not modelled. The channel
  \<open>tasks\<close> is the list of the items sent and not yet received, in order, with the capacity of
  \<open>make(chan *TaskItem, 100)\<close>. The queue is modelled while its channel is open, that is
  before \<open>Stop\<close>, which the program calls when it exits.
\<close>

record TaskItem =
  item_Task :: Task
  item_Callback :: "ProgressCallback option"

record TaskQueue =
  tasks :: "TaskItem list"
  workers :: nat
  active :: "nat \<rightharpoonup> TaskItem"

definition queue_cap :: nat where
  "queue_cap = 100"

definition NewTaskQueue :: "nat \<Rightarrow> TaskQueue" where
  "NewTaskQueue n = \<lparr>tasks = [], workers = n, active = Map.empty\<rparr>"

text \<open>\<open>Enqueue\<close>: the send is the first case of a \<open>select\<close> with a \<open>default\<close>, so it is
  taken when the channel has room and the \<open>default\<close> otherwise.\<close>

definition Enqueue ::
  "TaskQueue \<Rightarrow> Task \<Rightarrow> ProgressCallback option \<Rightarrow> error option \<times> TaskQueue" where
  "Enqueue q task callback =
     (let item = \<lparr>item_Task = task, item_Callback = callback\<rparr> in
      if length (tasks q) < queue_cap
        then (None, q\<lparr>tasks := tasks q @ [item], active := (active q)(task_ID task \<mapsto> item)\<rparr>)
      else (Some ''queue is full'', q))"

text \<open>
  What \<open>Cancel\<close> does besides returning, in the order of its statements: the call of the
  callback, with its arguments, and the deletion from the active set.
\<close>

datatype effect =
  Callback_called nat int TaskStatus string
  | Active_deleted nat

definition Cancel ::
  "TaskQueue \<Rightarrow> nat \<Rightarrow> world \<Rightarrow> error option \<times> TaskQueue \<times> world \<times> effect list" where
  "Cancel q taskID w =
     (case active q taskID of
        None \<Rightarrow> (Some (''task not found: '' @ show_nat taskID), q, w, [])
      | Some item \<Rightarrow>
          (case item_Callback item of
             Some f \<Rightarrow>
               (None, q\<lparr>active := (active q)(taskID := None)\<rparr>,
                f taskID 0 TaskStatusCancelled ''Task cancelled by user'' None w,
                [Callback_called taskID 0 TaskStatusCancelled ''Task cancelled by user'',
                 Active_deleted taskID])
           | None \<Rightarrow>
               (None, q\<lparr>active := (active q)(taskID := None)\<rparr>, w, [Active_deleted taskID])))"

definition GetActive :: "TaskQueue \<Rightarrow> TaskItem set" where
  "GetActive q = ran (active q)"

text \<open>\<open>processTask\<close>: the deferred function deletes the active entry and, after a panic,
  reports failed; an error of \<open>Execute\<close> is reported as failed before that.\<close>

definition processTask ::
  "env \<Rightarrow> TaskQueue \<Rightarrow> TaskItem \<Rightarrow> world \<Rightarrow> TaskQueue \<times> world" where
  "processTask e q item w =
     (let taskID = task_ID (item_Task item);
          (res, task', w1) = Execute e (item_Task item) (item_Callback item) w;
          q' = q\<lparr>active := (active q)(taskID := None)\<rparr>
      in case res of
           Ok u \<Rightarrow> (q', w1)
         | Err err \<Rightarrow>
             (q', call_cb (item_Callback item) taskID 0 TaskStatusFailed
                    (''execution failed: '' @ err) None w1)
         | Panic p \<Rightarrow>
             (q', call_cb (item_Callback item) taskID 0 TaskStatusFailed
                    (''panic: '' @ p) None w1))"



section \<open>Notions for stating the properties\<close>

text \<open>The configuration that \<open>Execute\<close> resolves for a task: the \<open>switch\<close> on the resource
  type, up to the start of the runner.\<close>

definition execution_plan :: "env \<Rightarrow> Task \<Rightarrow> world \<Rightarrow> AgnoConfig outcome" where
  "execution_plan e task w =
     (if task_ResourceType task = ''bot'' \<or> task_ResourceType task = ''robot''
        then executeBot_config e task w
      else if task_ResourceType task = ''team''
        then executeTeam_config e task w
      else Err (''unsupported resource type: '' @ task_ResourceType task))"

text \<open>The events of the runner's output, in order: the lines that decode.\<close>

definition decoded :: "(string \<Rightarrow> event option) \<Rightarrow> string list \<Rightarrow> event list" where
  "decoded dec lines = List.map_filter dec lines"

text \<open>The events before the first \<open>cancelled\<close> event (all of them when there is none).\<close>

definition before_cancelled :: "event list \<Rightarrow> event list" where
  "before_cancelled evs = takeWhile (\<lambda>ev. event_Type ev \<noteq> ''cancelled'') evs"

text \<open>The concatenation, in order, of the content of the \<open>content\<close> events.\<close>

definition content_of :: "event list \<Rightarrow> string" where
  "content_of evs = concat (map event_Content (filter (\<lambda>ev. event_Type ev = ''content'') evs))"

text \<open>The runner starts: the script is there, the pipes are made and the process is started.\<close>

definition starts :: "env \<Rightarrow> subprocess \<Rightarrow> bool" where
  "starts e p =
     (script_exists e \<and> stdin_pipe_err p = None \<and> stdout_pipe_err p = None
      \<and> stderr_pipe_err p = None \<and> start_err p = None)"

text \<open>The members of a team that load, in the order of the list, each with its Mind.\<close>

definition loaded_members ::
  "env \<Rightarrow> world \<Rightarrow> nat \<Rightarrow> string list \<Rightarrow> (AgnoMemberConfig \<times> Mind) list" where
  "loaded_members e w workspaceID names =
     List.map_filter
       (\<lambda>n. case loadRobotAsMember e w workspaceID n of
               Ok r \<Rightarrow> Some r | Err err \<Rightarrow> None | Panic p \<Rightarrow> None)
       names"

fun is_Panic :: "'a outcome \<Rightarrow> bool" where
  "is_Panic (Panic p) = True"
| "is_Panic r = False"

text \<open>The world after the read loop, and what it accumulated.\<close>

fun scan_world :: "scan_result \<Rightarrow> world" where
  "scan_world (Return_cancelled fullContent eventLogs w) = w"
| "scan_world (Loop_done fullContent lastError eventLogs w) = w"

fun scan_content :: "scan_result \<Rightarrow> string" where
  "scan_content (Return_cancelled fullContent eventLogs w) = fullContent"
| "scan_content (Loop_done fullContent lastError eventLogs w) = fullContent"


text \<open>From \<open>w\<close> to \<open>w'\<close> the resources and the clock are unchanged, a row of the task is not
  lost, and the statuses saved since are all running, for this task.\<close>

definition running_only :: "nat \<Rightarrow> world \<Rightarrow> world \<Rightarrow> bool" where
  "running_only taskID w w' =
     (db_resources w' = db_resources w \<and> clock w' = clock w
      \<and> (db_tasks w taskID = None \<or> db_tasks w' taskID \<noteq> None)
      \<and> (\<exists>n. saved w' = saved w @ replicate n (taskID, TaskStatusRunning)))"

text \<open>The message of the last \<open>error\<close> event, as the loop's variable \<open>lastError\<close> ends.\<close>

definition last_error :: "string \<Rightarrow> event list \<Rightarrow> string" where
  "last_error le evs =
     foldl (\<lambda>acc ev. if event_Type ev = ''error'' then event_Content ev else acc) le evs"

text \<open>\<open>Execute\<close> after the \<open>switch\<close>: the update of the task with the result.\<close>

definition finish ::
  "Task \<Rightarrow> int \<Rightarrow> ProgressCallback option \<Rightarrow> (string \<times> string) outcome \<times> world
   \<Rightarrow> unit outcome \<times> Task \<times> world" where
  "finish task1 started callback rw =
     (case fst rw of
        Panic p \<Rightarrow> (Panic p, task1, snd rw)
      | Err err \<Rightarrow>
          (let task2 = task1\<lparr>task_CompletedAt := Some (clock (snd rw)),
                             task_Duration := (clock (snd rw) - started) div 1000000,
                             task_Status := TaskStatusFailed, task_Error := err\<rparr>
           in (Err err, task2,
               call_cb callback (task_ID task2) 0 TaskStatusFailed err None
                 (snd (Tasks_Update (snd rw) task2))))
      | Ok (result, eventLogs) \<Rightarrow>
          (let task2 = task1\<lparr>task_CompletedAt := Some (clock (snd rw)),
                             task_Duration := (clock (snd rw) - started) div 1000000,
                             task_Status := TaskStatusCompleted, task_Result := result,
                             task_Progress := 100, task_EventLogs := eventLogs\<rparr>
           in (Ok (), task2,
               call_cb callback (task_ID task2) 100 TaskStatusCompleted ''Task completed''
                 (Some \<lparr>md_type = None, md_details = None, md_result = Some result\<rparr>)
                 (snd (Tasks_Update (snd rw) task2)))))"

text \<open>The task and the world when \<open>Execute\<close> reaches its \<open>switch\<close>.\<close>

definition started_task :: "Task \<Rightarrow> world \<Rightarrow> Task" where
  "started_task task w = task\<lparr>task_Status := TaskStatusRunning, task_StartedAt := Some (clock w)\<rparr>"

definition started_world :: "Task \<Rightarrow> ProgressCallback option \<Rightarrow> world \<Rightarrow> world" where
  "started_world task callback w =
     call_cb callback (task_ID task) 10 TaskStatusRunning ''Task started'' None
       (snd (Tasks_Update w (started_task task w)))"

text \<open>The run of the plan: the runner on the configuration, or the failure of the plan.\<close>

definition run_plan ::
  "env \<Rightarrow> Task \<Rightarrow> ProgressCallback option \<Rightarrow> world \<Rightarrow> (string \<times> string) outcome \<times> world" where
  "run_plan e task callback w =
     (case execution_plan e task w of
        Ok config \<Rightarrow> runAgnoScript e config (task_ID task) callback w
      | Err err \<Rightarrow> (Err err, w)
      | Panic p \<Rightarrow> (Panic p, w))"



section \<open>Concrete documents and decoders\<close>

text \<open>
  Data for evaluating the model at concrete inputs: resource documents in YAML flow style, the
  structs they decode to, and a decoder table standing for the YAML library on exactly these
  documents (any other text is a syntax error of the table).
\<close>

definition meta_named :: "string \<Rightarrow> Metadata" where
  "meta_named n =
     \<lparr>Name = n, Description = [], Labels = [], Annotations = [], CreatedAt = 0, UpdatedAt = 0\<rparr>"

definition soul_a_text :: string where
  "soul_a_text =
     ''{apiVersion: xgent.ai/v1, kind: Soul, metadata: {name: a}, spec: {personality: You are helpful.}}''"

definition soul_a :: Soul where
  "soul_a =
     \<lparr>soul_APIVersion = ''xgent.ai/v1'', soul_Kind = ''Soul'', soul_Metadata = meta_named ''a'',
      soul_Spec = \<lparr>Personality = ''You are helpful.'', Capabilities = [], Constraints = [],
                   Examples = []\<rparr>\<rparr>"

text \<open>The same Soul written in block style, on four lines.\<close>

definition soul_a_block_text :: string where
  "soul_a_block_text =
     ''apiVersion: xgent.ai/v1'' @ [CHR 0x0A] @ ''kind: Soul'' @ [CHR 0x0A]
     @ ''metadata: {name: a}'' @ [CHR 0x0A] @ ''spec: {personality: You are helpful.}''
     @ [CHR 0x0A]"

text \<open>A Soul document whose \<open>capabilities\<close> is a scalar where the struct has a list of strings:
  the header decodes, the Soul struct does not.\<close>

definition soul_bad_text :: string where
  "soul_bad_text =
     ''{apiVersion: xgent.ai/v1, kind: Soul, metadata: {name: a}, spec: {personality: p, capabilities: x}}''"

definition mind_m_text :: string where
  "mind_m_text =
     ''{apiVersion: xgent.ai/v1, kind: Mind, metadata: {name: m}, spec: {provider: ollama, model_id: llama3}}''"

definition mind_m :: Mind where
  "mind_m =
     \<lparr>mind_APIVersion = ''xgent.ai/v1'', mind_Kind = ''Mind'', mind_Metadata = meta_named ''m'',
      mind_Spec = \<lparr>Provider = ''ollama'', ModelID = ''llama3'', APIKey = [], BaseURL = [],
                   Temperature = 0, MaxTokens = 0, Headers = []\<rparr>\<rparr>"

definition robot_r_text :: string where
  "robot_r_text =
     ''{apiVersion: xgent.ai/v1, kind: Robot, metadata: {name: r}, spec: {soul: a, mind: m}}''"

definition robot_r :: Robot where
  "robot_r =
     \<lparr>robot_APIVersion = ''xgent.ai/v1'', robot_Kind = ''Robot'', robot_Metadata = meta_named ''r'',
      robot_Spec = \<lparr>robot_Soul = ''a'', robot_Mind = ''m'', robot_Craft = [],
                    robot_SessionID = [], robot_MaxHistory = 0\<rparr>\<rparr>"

definition robot_g_text :: string where
  "robot_g_text =
     ''{apiVersion: xgent.ai/v1, kind: Robot, metadata: {name: g}, spec: {soul: ghost, mind: m}}''"

definition robot_g :: Robot where
  "robot_g =
     \<lparr>robot_APIVersion = ''xgent.ai/v1'', robot_Kind = ''Robot'', robot_Metadata = meta_named ''g'',
      robot_Spec = \<lparr>robot_Soul = ''ghost'', robot_Mind = ''m'', robot_Craft = [],
                    robot_SessionID = [], robot_MaxHistory = 0\<rparr>\<rparr>"

definition robot_h_text :: string where
  "robot_h_text =
     ''{apiVersion: xgent.ai/v1, kind: Robot, metadata: {name: h}, spec: {soul: a, mind: lost}}''"

definition robot_h :: Robot where
  "robot_h =
     \<lparr>robot_APIVersion = ''xgent.ai/v1'', robot_Kind = ''Robot'', robot_Metadata = meta_named ''h'',
      robot_Spec = \<lparr>robot_Soul = ''a'', robot_Mind = ''lost'', robot_Craft = [],
                    robot_SessionID = [], robot_MaxHistory = 0\<rparr>\<rparr>"

definition team_t_text :: string where
  "team_t_text =
     ''{apiVersion: xgent.ai/v1, kind: Team, metadata: {name: t}, spec: {leader: g, members: [r], mode: coordinate}}''"

definition team_t :: Team where
  "team_t =
     \<lparr>team_APIVersion = ''xgent.ai/v1'', team_Kind = ''Team'', team_Metadata = meta_named ''t'',
      team_Spec = \<lparr>Leader = ''g'', Members = [''r''], Mode = ''coordinate'', team_Craft = [],
                   team_Description = []\<rparr>\<rparr>"

definition team_u_text :: string where
  "team_u_text =
     ''{apiVersion: xgent.ai/v1, kind: Team, metadata: {name: u}, spec: {members: [g, r], mode: route}}''"

definition team_u :: Team where
  "team_u =
     \<lparr>team_APIVersion = ''xgent.ai/v1'', team_Kind = ''Team'', team_Metadata = meta_named ''u'',
      team_Spec = \<lparr>Leader = [], Members = [''g'', ''r''], Mode = ''route'', team_Craft = [],
                   team_Description = []\<rparr>\<rparr>"

definition table :: "(string \<times> 'a) list \<Rightarrow> string \<Rightarrow> error + 'a" where
  "table kvs data =
     (case map_of kvs data of
        None \<Rightarrow> Inl ''yaml: unmarshal errors''
      | Some v \<Rightarrow> Inr v)"

definition yaml_table :: yaml where
  "yaml_table =
     \<lparr>unmarshal_header = table
        [(soul_a_text, (''xgent.ai/v1'', ''Soul'')), (soul_bad_text, (''xgent.ai/v1'', ''Soul'')),
         (mind_m_text, (''xgent.ai/v1'', ''Mind'')), (robot_r_text, (''xgent.ai/v1'', ''Robot'')),
         (robot_g_text, (''xgent.ai/v1'', ''Robot'')),
         (robot_h_text, (''xgent.ai/v1'', ''Robot'')), (team_t_text, (''xgent.ai/v1'', ''Team'')),
         (team_u_text, (''xgent.ai/v1'', ''Team'')),
         (soul_a_block_text, (''xgent.ai/v1'', ''Soul''))],
      unmarshal_Soul = table [(soul_a_text, soul_a), (soul_a_block_text, soul_a)],
      unmarshal_Mind = table [(mind_m_text, mind_m)],
      unmarshal_Craft = table [],
      unmarshal_Robot =
        table [(robot_r_text, robot_r), (robot_g_text, robot_g), (robot_h_text, robot_h)],
      unmarshal_Team = table [(team_t_text, team_t), (team_u_text, team_u)],
      unmarshal_Collaboration = table []\<rparr>"



text \<open>A store with the Soul a, the Mind m, the robots r (soul a, mind m) and g (soul ghost,
  which does not exist, mind m) and h (soul a, mind lost, which does not exist), and the teams t (leader g, member r) and u (members g and r);
  and the pending robot task 1 of scenario S1.\<close>

definition rows :: "ResourceRow list" where
  "rows =
     [\<lparr>res_ID = 1, res_WorkspaceID = 1, res_Type = ''Soul'', res_Name = ''a'',
       res_Spec = soul_a_text\<rparr>,
      \<lparr>res_ID = 2, res_WorkspaceID = 1, res_Type = ''Mind'', res_Name = ''m'',
       res_Spec = mind_m_text\<rparr>,
      \<lparr>res_ID = 3, res_WorkspaceID = 1, res_Type = ''Robot'', res_Name = ''r'',
       res_Spec = robot_r_text\<rparr>,
      \<lparr>res_ID = 4, res_WorkspaceID = 1, res_Type = ''Robot'', res_Name = ''g'',
       res_Spec = robot_g_text\<rparr>,
      \<lparr>res_ID = 5, res_WorkspaceID = 1, res_Type = ''Team'', res_Name = ''t'',
       res_Spec = team_t_text\<rparr>,
      \<lparr>res_ID = 6, res_WorkspaceID = 1, res_Type = ''Team'', res_Name = ''u'',
       res_Spec = team_u_text\<rparr>,
      \<lparr>res_ID = 7, res_WorkspaceID = 1, res_Type = ''Robot'', res_Name = ''h'',
       res_Spec = robot_h_text\<rparr>]"

definition task_for :: "string \<Rightarrow> string \<Rightarrow> Task" where
  "task_for resourceType resourceName =
     \<lparr>task_ID = 1, task_WorkspaceID = 1, task_UserID = 1, task_Status = TaskStatusPending,
      task_Title = ''t'', task_Description = [], task_Prompt = ''hi'',
      task_ResourceType = resourceType, task_ResourceName = resourceName, task_Mode = [],
      task_GitURL = [], task_BranchName = [], task_Result = [], task_Error = [],
      task_Progress = 0, task_EventLogs = [], task_StartedAt = None, task_CompletedAt = None,
      task_Duration = 0\<rparr>"

definition task1 :: Task where
  "task1 = task_for ''robot'' ''r''"

definition world_with :: "ResourceRow list \<Rightarrow> Task \<Rightarrow> world" where
  "world_with rs task =
     \<lparr>db_tasks = [task_ID task \<mapsto> task], db_logs = [], db_resources = rs,
      broadcaster = NewEventBroadcaster, clock = 0, saved = []\<rparr>"

definition world1 :: world where
  "world1 = world_with rows task1"

text \<open>The same store with the text of the Soul a replaced by one that does not parse.\<close>

definition soul_bad_row :: ResourceRow where
  "soul_bad_row =
     \<lparr>res_ID = 1, res_WorkspaceID = 1, res_Type = ''Soul'', res_Name = ''a'',
      res_Spec = soul_bad_text\<rparr>"

definition rows_bad_soul :: "ResourceRow list" where
  "rows_bad_soul = soul_bad_row # tl rows"

text \<open>Runner output lines and the events they decode to; any other line is not JSON.\<close>

definition line_started :: string where
  \<open>line_started = ''{"type":"started"}''\<close>

definition line_hello :: string where
  \<open>line_hello = ''{"type":"content","content":"hello"}''\<close>

definition line_world :: string where
  \<open>line_world = ''{"type":"content","content":" world"}''\<close>

definition line_completed :: string where
  \<open>line_completed = ''{"type":"completed"}''\<close>

definition line_partial :: string where
  \<open>line_partial = ''{"type":"content","content":"partial"}''\<close>

definition line_boom :: string where
  \<open>line_boom = ''{"type":"error","content":"boom"}''\<close>

definition line_cancelled :: string where
  \<open>line_cancelled = ''{"type":"cancelled"}''\<close>

definition json_table :: "string \<Rightarrow> event option" where
  "json_table =
     map_of
       [(line_started, \<lparr>event_Type = ''started'', event_Content = [], event_Details = None\<rparr>),
        (line_hello, \<lparr>event_Type = ''content'', event_Content = ''hello'', event_Details = None\<rparr>),
        (line_world, \<lparr>event_Type = ''content'', event_Content = '' world'', event_Details = None\<rparr>),
        (line_completed, \<lparr>event_Type = ''completed'', event_Content = [], event_Details = None\<rparr>),
        (line_partial, \<lparr>event_Type = ''content'', event_Content = ''partial'', event_Details = None\<rparr>),
        (line_boom, \<lparr>event_Type = ''error'', event_Content = ''boom'', event_Details = None\<rparr>),
        (line_cancelled, \<lparr>event_Type = ''cancelled'', event_Content = [], event_Details = None\<rparr>)]"

text \<open>A runner that starts, writes the given lines and exits with the given error of
  \<open>cmd.Wait\<close>, whatever its configuration.\<close>

definition env_with :: "string list \<Rightarrow> error option \<Rightarrow> env" where
  "env_with lines exit =
     \<lparr>yaml_lib = yaml_table, json_event = json_table,
      script_path = ''/app/scripts/agno_runner.py'', script_exists = True,
      run = (\<lambda>config. \<lparr>stdin_pipe_err = None, stdout_pipe_err = None, stderr_pipe_err = None,
                       start_err = None, stdout_lines = lines, wait_err = exit\<rparr>)\<rparr>"

text \<open>A queue whose channel holds 100 items (scenario S4 at the capacity of the code).\<close>

definition full_queue :: TaskQueue where
  "full_queue =
     \<lparr>tasks = replicate 100 \<lparr>item_Task = task1, item_Callback = None\<rparr>, workers = 1,
      active = [1 \<mapsto> \<lparr>item_Task = task1, item_Callback = None\<rparr>]\<rparr>"


section \<open>Properties of the parser\<close>

lemmas Kind_defs =
  KindSoul_def KindMind_def KindCraft_def KindRobot_def KindTeam_def KindCollaboration_def

lemma Validate_iff_spec_invalid: "(Validate r \<noteq> None) = spec_invalid r"
  by (cases r) (simp_all add: ErrInvalidMetadata_def ErrInvalidSpec_def)

lemma Parse_switch_Inr_kind:
  "Parse_switch y kind data = Inr r \<Longrightarrow> GetKind r = kind \<and> kind \<in> set known_kinds"
  by (auto simp: Parse_switch_def known_kinds_def split: if_splits sum.splits)

lemma Parse_switch_unknown:
  "kind \<notin> set known_kinds \<Longrightarrow> isl (Parse_switch y kind data)"
  by (simp add: Parse_switch_def known_kinds_def)

lemma Parse_Inr_iff:
  "(Parse y data = Inr r) =
     (\<exists>kind. unmarshal_header y data = Inr (APIVersion, kind)
        \<and> Parse_switch y kind data = Inr r \<and> Validate r = None)"
  by (auto simp: Parse_def split: sum.splits prod.splits if_splits option.splits)

lemma yaml_table_simps:
  "unmarshal_header yaml_table soul_a_text = Inr (APIVersion, KindSoul)"
  "unmarshal_header yaml_table soul_bad_text = Inr (APIVersion, KindSoul)"
  "unmarshal_header yaml_table mind_m_text = Inr (APIVersion, KindMind)"
  "unmarshal_header yaml_table robot_r_text = Inr (APIVersion, KindRobot)"
  "unmarshal_header yaml_table robot_g_text = Inr (APIVersion, KindRobot)"
  "unmarshal_header yaml_table team_t_text = Inr (APIVersion, KindTeam)"
  "unmarshal_header yaml_table team_u_text = Inr (APIVersion, KindTeam)"
  "unmarshal_Soul yaml_table soul_a_text = Inr soul_a"
  "unmarshal_Soul yaml_table soul_bad_text = Inl ''yaml: unmarshal errors''"
  "unmarshal_Mind yaml_table mind_m_text = Inr mind_m"
  "unmarshal_Robot yaml_table robot_r_text = Inr robot_r"
  "unmarshal_Robot yaml_table robot_g_text = Inr robot_g"
  "unmarshal_header yaml_table robot_h_text = Inr (APIVersion, KindRobot)"
  "unmarshal_Robot yaml_table robot_h_text = Inr robot_h"
  "unmarshal_Team yaml_table team_t_text = Inr team_t"
  "unmarshal_Team yaml_table team_u_text = Inr team_u"
  by (simp_all add: yaml_table_def table_def APIVersion_def Kind_defs soul_a_text_def
      soul_bad_text_def mind_m_text_def robot_r_text_def robot_g_text_def robot_h_text_def
      team_t_text_def team_u_text_def soul_a_block_text_def)

lemma Parse_table_simps:
  "Parse yaml_table soul_a_text = Inr (RSoul soul_a)"
  "Parse yaml_table mind_m_text = Inr (RMind mind_m)"
  "Parse yaml_table robot_r_text = Inr (RRobot robot_r)"
  "Parse yaml_table robot_g_text = Inr (RRobot robot_g)"
  "Parse yaml_table robot_h_text = Inr (RRobot robot_h)"
  "Parse yaml_table team_t_text = Inr (RTeam team_t)"
  "Parse yaml_table team_u_text = Inr (RTeam team_u)"
  "Parse yaml_table soul_bad_text = Inl ''failed to parse Soul: yaml: unmarshal errors''"
  by (simp_all add: Parse_def Parse_switch_def yaml_table_simps Kind_defs soul_a_def mind_m_def
      robot_r_def robot_g_def robot_h_def team_t_def team_u_def meta_named_def)

lemma Parse_switch_typed:
  "(Parse_switch y kind data = Inr r) = (kind = GetKind r \<and> typed_decode y data r)"
  by (cases r) (auto simp: Parse_switch_def Kind_defs split: sum.splits)

lemma Parse_switch_isl:
  "isl (Parse_switch y kind data) = (kind \<notin> set known_kinds \<or> struct_fails y kind data)"
  by (auto simp: Parse_switch_def known_kinds_def struct_fails_def Kind_defs split: sum.splits)

lemma Parse_switch_invalid:
  "(case Parse_switch y kind data of Inl err \<Rightarrow> False | Inr r \<Rightarrow> spec_invalid r)
     = validation_rejects y kind data"
  by (auto simp: Parse_switch_def validation_rejects_def Kind_defs split: sum.splits)

text \<open>
  C7, as stated: \<open>Parse\<close> returns an error exactly when the apiVersion is absent or differs, or
  the kind is not one of the six, or the validation of the kind rejects the resource. This fails
  on a document with the recognized apiVersion and the kind Soul whose Soul struct does not
  deserialize: \<open>Parse\<close> returns "failed to parse Soul: ..." and none of the three causes holds.
\<close>

theorem C7_counterexample:
  "isl (Parse yaml_table soul_bad_text) \<and> \<not> spec_rejects yaml_table soul_bad_text"
  by (simp add: Parse_table_simps spec_rejects_def yaml_table_simps known_kinds_def
      validation_rejects_def Kind_defs)

text \<open>
  C7, amended: \<open>Parse\<close> returns an error exactly when the text does not deserialize (as the
  header, or as the struct of its kind), or its apiVersion is absent or differs from the single
  recognized value, or its kind is not one of the six known kinds, or the validation of the kind
  rejects it (missing metadata name, or missing Soul personality, Mind provider or model, Robot
  soul or mind, or empty Team members); otherwise it returns the typed resource of that kind: it
  returns a resource exactly when the header holds the recognized apiVersion and the kind of the
  resource, the library's decoder at the type of that kind returns the resource, and the
  resource is valid.
\<close>

theorem C7_Parse_error_iff:
  "(isl (Parse y data) = (decode_fails y data \<or> spec_rejects y data))
   \<and> ((Parse y data = Inr r) =
        (unmarshal_header y data = Inr (APIVersion, GetKind r) \<and> typed_decode y data r
         \<and> \<not> spec_invalid r))"
proof -
  have A: "isl (Parse y data) = (decode_fails y data \<or> spec_rejects y data)"
  proof (cases "unmarshal_header y data")
    case (Inl err)
    then show ?thesis by (simp add: Parse_def decode_fails_def spec_rejects_def)
  next
    case (Inr p)
    obtain av kind where p: "p = (av, kind)" by (cases p)
    show ?thesis
    proof (cases "Parse_switch y kind data")
      case (Inl e)
      with Parse_switch_isl [of y kind data] Parse_switch_invalid [of y kind data]
        \<open>unmarshal_header y data = Inr p\<close> p
      show ?thesis
        by (auto simp: Parse_def decode_fails_def spec_rejects_def)
    next
      case (Inr r)
      with Parse_switch_isl [of y kind data] Parse_switch_invalid [of y kind data]
        \<open>unmarshal_header y data = Inr p\<close> p Validate_iff_spec_invalid [of r]
      show ?thesis
        by (auto simp: Parse_def decode_fails_def spec_rejects_def split: option.splits)
    qed
  qed
  have B: "(Parse y data = Inr r) =
        (unmarshal_header y data = Inr (APIVersion, GetKind r) \<and> typed_decode y data r
         \<and> \<not> spec_invalid r)"
    using Validate_iff_spec_invalid [of r]
    by (auto simp: Parse_Inr_iff Parse_switch_typed)
  from A B show ?thesis by blast
qed

theorem C7_Parse_error_iff_witness:
  "Parse yaml_table soul_a_text = Inr (RSoul soul_a)
   \<and> \<not> decode_fails yaml_table soul_a_text \<and> \<not> spec_rejects yaml_table soul_a_text
   \<and> Parse yaml_table mind_m_text = Inr (RMind mind_m)
   \<and> isl (Parse yaml_table soul_bad_text) \<and> decode_fails yaml_table soul_bad_text"
proof -
  have s: "unmarshal_header yaml_table soul_a_text = Inr (APIVersion, GetKind (RSoul soul_a))
      \<and> typed_decode yaml_table soul_a_text (RSoul soul_a) \<and> \<not> spec_invalid (RSoul soul_a)"
    by (simp add: yaml_table_simps soul_a_def meta_named_def)
  have m: "unmarshal_header yaml_table mind_m_text = Inr (APIVersion, GetKind (RMind mind_m))
      \<and> typed_decode yaml_table mind_m_text (RMind mind_m) \<and> \<not> spec_invalid (RMind mind_m)"
    by (simp add: yaml_table_simps mind_m_def meta_named_def)
  have bad: "\<not> spec_rejects yaml_table soul_bad_text"
    by (simp add: spec_rejects_def yaml_table_simps known_kinds_def validation_rejects_def
        Kind_defs)
  have 1: "Parse yaml_table soul_a_text = Inr (RSoul soul_a)"
    using C7_Parse_error_iff [of yaml_table soul_a_text "RSoul soul_a", THEN conjunct2] s
    by blast
  have 2: "Parse yaml_table mind_m_text = Inr (RMind mind_m)"
    using C7_Parse_error_iff [of yaml_table mind_m_text "RMind mind_m", THEN conjunct2] m
    by blast
  from 1 have "\<not> isl (Parse yaml_table soul_a_text)" by simp
  with C7_Parse_error_iff [of yaml_table soul_a_text "RSoul soul_a", THEN conjunct1]
  have 3: "\<not> decode_fails yaml_table soul_a_text \<and> \<not> spec_rejects yaml_table soul_a_text"
    by blast
  have "isl (Parse yaml_table soul_bad_text)" by (simp add: Parse_table_simps)
  with C7_Parse_error_iff [of yaml_table soul_bad_text "RSoul soul_a", THEN conjunct1] bad
  have 4: "isl (Parse yaml_table soul_bad_text) \<and> decode_fails yaml_table soul_bad_text"
    by blast
  from 1 2 3 4 show ?thesis by blast
qed




section \<open>Properties of the event broadcaster\<close>




















section \<open>Properties of the task queue\<close>

text \<open>
  C6: \<open>Enqueue\<close> never blocks: it returns at once in both cases. When the task channel is full
  it returns the error "queue is full" and leaves the queue as it was, so the task id is not
  added to the active set; when it succeeds the channel had room, the item is sent, and the
  task id is registered in the active set.
\<close>

theorem C6_Enqueue:
  "(queue_cap \<le> length (tasks q) \<longrightarrow>
      Enqueue q task callback = (Some ''queue is full'', q))
   \<and> (fst (Enqueue q task callback) = None \<longrightarrow>
        length (tasks q) < queue_cap
        \<and> tasks (snd (Enqueue q task callback))
            = tasks q @ [\<lparr>item_Task = task, item_Callback = callback\<rparr>]
        \<and> active (snd (Enqueue q task callback)) (task_ID task)
            = Some \<lparr>item_Task = task, item_Callback = callback\<rparr>)
   \<and> (fst (Enqueue q task callback) \<noteq> None \<longrightarrow>
        Enqueue q task callback = (Some ''queue is full'', q))"
  by (simp add: Enqueue_def Let_def)

theorem C6_Enqueue_witness:
  "Enqueue full_queue (task_for ''robot'' ''g'') None = (Some ''queue is full'', full_queue)
   \<and> fst (Enqueue (NewTaskQueue 1) task1 None) = None
   \<and> active (snd (Enqueue (NewTaskQueue 1) task1 None)) (task_ID task1)
       = Some \<lparr>item_Task = task1, item_Callback = None\<rparr>"
proof -
  have full: "queue_cap \<le> length (tasks full_queue)"
    by (simp add: queue_cap_def full_queue_def)
  have ok: "fst (Enqueue (NewTaskQueue 1) task1 None) = None"
    by (simp add: Enqueue_def Let_def NewTaskQueue_def queue_cap_def)
  have 1: "Enqueue full_queue (task_for ''robot'' ''g'') None = (Some ''queue is full'', full_queue)"
    using C6_Enqueue [of full_queue "task_for ''robot'' ''g''" None, THEN conjunct1] full
    by (rule mp)
  have 2: "active (snd (Enqueue (NewTaskQueue 1) task1 None)) (task_ID task1)
       = Some \<lparr>item_Task = task1, item_Callback = None\<rparr>"
    using C6_Enqueue [of "NewTaskQueue 1" task1 None, THEN conjunct2, THEN conjunct1] ok
    by blast
  from 1 ok 2 show ?thesis by blast
qed

text \<open>
  C10: \<open>Cancel\<close> of a task id that is not in the active set returns the error
  "task not found: id", calls no callback (the world is as before) and leaves the queue, so the
  active set, unchanged. When the id is in the active set, the entry is deleted and \<open>Cancel\<close>
  returns no error; before the deletion the callback of the entry is called with progress 0 and
  the status cancelled, and an entry without a callback is deleted with no call.
\<close>

theorem C10_Cancel:
  "(active q taskID = None \<longrightarrow>
      Cancel q taskID w = (Some (''task not found: '' @ show_nat taskID), q, w, []))
   \<and> (\<forall>item f. active q taskID = Some item \<and> item_Callback item = Some f \<longrightarrow>
        Cancel q taskID w =
          (None, q\<lparr>active := (active q)(taskID := None)\<rparr>,
           f taskID 0 TaskStatusCancelled ''Task cancelled by user'' None w,
           [Callback_called taskID 0 TaskStatusCancelled ''Task cancelled by user'',
            Active_deleted taskID]))
   \<and> (\<forall>item. active q taskID = Some item \<and> item_Callback item = None \<longrightarrow>
        Cancel q taskID w =
          (None, q\<lparr>active := (active q)(taskID := None)\<rparr>, w, [Active_deleted taskID]))
   \<and> (active q taskID \<noteq> None \<longrightarrow>
        fst (Cancel q taskID w) = None
        \<and> active (fst (snd (Cancel q taskID w))) = (active q)(taskID := None))"
  by (auto simp: Cancel_def split: option.splits)

theorem C10_Cancel_witness:
  "Cancel (NewTaskQueue 1) 7 world1 = (Some ''task not found: 7'', NewTaskQueue 1, world1, [])
   \<and> Cancel (snd (Enqueue (NewTaskQueue 1) task1 (Some handler_callback))) 1 world1 =
       (None,
        (snd (Enqueue (NewTaskQueue 1) task1 (Some handler_callback)))\<lparr>active := Map.empty\<rparr>,
        handler_callback 1 0 TaskStatusCancelled ''Task cancelled by user'' None world1,
        [Callback_called 1 0 TaskStatusCancelled ''Task cancelled by user'', Active_deleted 1])
   \<and> Cancel (snd (Enqueue (NewTaskQueue 1) task1 None)) 1 world1 =
       (None, (snd (Enqueue (NewTaskQueue 1) task1 None))\<lparr>active := Map.empty\<rparr>, world1,
        [Active_deleted 1])"
proof -
  let ?q = "snd (Enqueue (NewTaskQueue 1) task1 (Some handler_callback))"
  let ?n = "snd (Enqueue (NewTaskQueue 1) task1 None)"
  have a: "active (NewTaskQueue 1) 7 = None" by (simp add: NewTaskQueue_def)
  have b: "active ?q 1 = Some \<lparr>item_Task = task1, item_Callback = Some handler_callback\<rparr>
      \<and> item_Callback \<lparr>item_Task = task1, item_Callback = Some handler_callback\<rparr>
          = Some handler_callback"
    by (simp add: Enqueue_def Let_def NewTaskQueue_def queue_cap_def task1_def task_for_def)
  have c: "(active ?q)(1 := None) = Map.empty"
    by (simp add: Enqueue_def Let_def NewTaskQueue_def queue_cap_def task1_def task_for_def)
  have d: "show_nat 7 = ''7''" by (simp add: show_nat.simps)
  have e: "active ?n 1 = Some \<lparr>item_Task = task1, item_Callback = None\<rparr>
      \<and> item_Callback \<lparr>item_Task = task1, item_Callback = None\<rparr> = None"
    by (simp add: Enqueue_def Let_def NewTaskQueue_def queue_cap_def task1_def task_for_def)
  have f: "(active ?n)(1 := None) = Map.empty"
    by (simp add: Enqueue_def Let_def NewTaskQueue_def queue_cap_def task1_def task_for_def)
  have 1: "Cancel (NewTaskQueue 1) 7 world1
      = (Some (''task not found: '' @ show_nat 7), NewTaskQueue 1, world1, [])"
    using C10_Cancel [of "NewTaskQueue 1" 7 world1, THEN conjunct1] a by blast
  note 2 = C10_Cancel [of ?q 1 world1, THEN conjunct2, THEN conjunct1, rule_format, OF b]
  note 3 = C10_Cancel [of ?n 1 world1, THEN conjunct2, THEN conjunct2, THEN conjunct1,
      rule_format, OF e]
  from 1 2 3 c d f show ?thesis by simp
qed

section \<open>Properties of the resolution of resources\<close>

lemmas ResourceType_defs =
  ResourceTypeSoul_def ResourceTypeMind_def ResourceTypeCraft_def ResourceTypeRobot_def
  ResourceTypeTeam_def

lemma GetByName_rows:
  "Resources_GetByName (world_with rows t) (Suc 0) ''a'' ResourceTypeSoul = Inr (rows ! 0)"
  "Resources_GetByName (world_with rows t) (Suc 0) ''ghost'' ResourceTypeSoul = Inl ''record not found''"
  "Resources_GetByName (world_with rows t) (Suc 0) ''m'' ResourceTypeMind = Inr (rows ! 1)"
  "Resources_GetByName (world_with rows t) (Suc 0) ''lost'' ResourceTypeMind = Inl ''record not found''"
  "Resources_GetByName (world_with rows t) (Suc 0) ''r'' ResourceTypeRobot = Inr (rows ! 2)"
  "Resources_GetByName (world_with rows t) (Suc 0) ''g'' ResourceTypeRobot = Inr (rows ! 3)"
  "Resources_GetByName (world_with rows t) (Suc 0) ''t'' ResourceTypeTeam = Inr (rows ! 4)"
  "Resources_GetByName (world_with rows t) (Suc 0) ''u'' ResourceTypeTeam = Inr (rows ! 5)"
  "Resources_GetByName (world_with rows t) (Suc 0) ''h'' ResourceTypeRobot = Inr (rows ! 6)"
  by (simp_all add: Resources_GetByName_def world_with_def rows_def ResourceType_defs)

lemma rows_Spec:
  "res_Spec (rows ! 0) = soul_a_text" "res_Spec (rows ! 1) = mind_m_text"
  "res_Spec (rows ! 2) = robot_r_text" "res_Spec (rows ! 3) = robot_g_text"
  "res_Spec (rows ! 4) = team_t_text" "res_Spec (rows ! 5) = team_u_text"
  "res_Spec (rows ! 6) = robot_h_text"
  by (simp_all add: rows_def)

lemma GetByName_rows_bad_soul:
  "Resources_GetByName (world_with rows_bad_soul t) (Suc 0) ''r'' ResourceTypeRobot = Inr (rows ! 2)"
  "Resources_GetByName (world_with rows_bad_soul t) (Suc 0) ''a'' ResourceTypeSoul
     = Inr soul_bad_row"
  "res_Spec soul_bad_row = soul_bad_text"
  by (simp_all add: Resources_GetByName_def world_with_def rows_def rows_bad_soul_def
      soul_bad_row_def ResourceType_defs)

lemma task_for_simps:
  "task_ID (task_for ty n) = 1" "task_WorkspaceID (task_for ty n) = 1"
  "task_ResourceName (task_for ty n) = n" "task_ResourceType (task_for ty n) = ty"
  "task_UserID (task_for ty n) = 1" "task_Status (task_for ty n) = TaskStatusPending"
  by (simp_all add: task_for_def)

lemma env_with_simps:
  "yaml_lib (env_with ls x) = yaml_table" "json_event (env_with ls x) = json_table"
  "script_exists (env_with ls x) = True"
  "stdout_lines (run (env_with ls x) c) = ls" "wait_err (run (env_with ls x) c) = x"
  "stdin_pipe_err (run (env_with ls x) c) = None" "stdout_pipe_err (run (env_with ls x) c) = None"
  "stderr_pipe_err (run (env_with ls x) c) = None" "start_err (run (env_with ls x) c) = None"
  by (simp_all add: env_with_def)

lemma robot_simps:
  "robot_Soul (robot_Spec robot_r) = ''a''" "robot_Mind (robot_Spec robot_r) = ''m''"
  "robot_Soul (robot_Spec robot_g) = ''ghost''" "robot_Mind (robot_Spec robot_g) = ''m''"
  "robot_Soul (robot_Spec robot_h) = ''a''" "robot_Mind (robot_Spec robot_h) = ''lost''"
  "robot_Craft (robot_Spec robot_r) = []"
  by (simp_all add: robot_r_def robot_g_def robot_h_def)

text \<open>
  C4, as stated, promises for a robot task whose Soul or Mind is missing or whose stored text is
  unparseable an error that identifies the dangling reference by name and kind, and no other
  abnormal end. For the robot g, whose Soul "ghost" is missing, the error is
  "failed to load soul: record not found": the kind and the repository's cause, not the name. For
  the robot r with a Soul text that does not parse, the resolution panics.
\<close>

theorem C4_counterexample:
  "executeBot (env_with [] None) (task_for ''robot'' ''g'') None
       (world_with rows (task_for ''robot'' ''g''))
     = (Err ''failed to load soul: record not found'', world_with rows (task_for ''robot'' ''g''))
   \<and> \<not> sublist ''ghost'' ''failed to load soul: record not found''
   \<and> executeBot (env_with [] None) task1 None (world_with rows_bad_soul task1)
     = (Panic ''interface conversion: crd.Resource is nil, not *crd.Soul'',
        world_with rows_bad_soul task1)"
proof -
  have 1: "executeBot (env_with [] None) (task_for ''robot'' ''g'') None
       (world_with rows (task_for ''robot'' ''g''))
     = (Err ''failed to load soul: record not found'', world_with rows (task_for ''robot'' ''g''))"
    by (simp add: executeBot_def executeBot_config_def task_for_simps GetByName_rows rows_Spec
        env_with_simps Parse_table_simps robot_simps)
  have 2: "\<not> sublist ''ghost'' ''failed to load soul: record not found''"
    by (simp add: sublist_Cons_right)
  have 3: "executeBot (env_with [] None) task1 None (world_with rows_bad_soul task1)
     = (Panic ''interface conversion: crd.Resource is nil, not *crd.Soul'',
        world_with rows_bad_soul task1)"
    by (simp add: executeBot_def executeBot_config_def task1_def task_for_simps
        GetByName_rows_bad_soul rows_Spec env_with_simps Parse_table_simps robot_simps)
  from 1 2 3 show ?thesis by blast
qed

text \<open>
  C4, amended: for every robot task whose robot loads and parses and whose referenced Soul is
  missing from the repository, or whose Soul loads and parses and whose referenced Mind is
  missing, the resolution fails the plan with the error "failed to load soul: cause" or
  "failed to load mind: cause", which names the kind of the dangling reference and carries the
  repository's cause; it does not succeed, does not panic, and nothing is run or reported (the
  world is unchanged). (A Soul or Mind text that does not parse is left out.)
\<close>

theorem C4_missing_reference:
  "Resources_GetByName w (task_WorkspaceID task) (task_ResourceName task) ResourceTypeRobot
     = Inr robotRow \<and> Parse (yaml_lib e) (res_Spec robotRow) = Inr (RRobot robot) \<longrightarrow>
   (\<forall>cause.
      Resources_GetByName w (task_WorkspaceID task) (robot_Soul (robot_Spec robot))
        ResourceTypeSoul = Inl cause \<longrightarrow>
      executeBot e task callback w = (Err (''failed to load soul: '' @ cause), w))
   \<and> (\<forall>cause soulRow soul.
      Resources_GetByName w (task_WorkspaceID task) (robot_Soul (robot_Spec robot))
        ResourceTypeSoul = Inr soulRow
      \<and> Parse (yaml_lib e) (res_Spec soulRow) = Inr (RSoul soul)
      \<and> Resources_GetByName w (task_WorkspaceID task) (robot_Mind (robot_Spec robot))
        ResourceTypeMind = Inl cause \<longrightarrow>
      executeBot e task callback w = (Err (''failed to load mind: '' @ cause), w))"
  by (simp add: executeBot_def executeBot_config_def)

theorem C4_missing_reference_witness:
  "executeBot (env_with [] None) (task_for ''robot'' ''g'') (Some handler_callback)
       (world_with rows (task_for ''robot'' ''g''))
     = (Err ''failed to load soul: record not found'', world_with rows (task_for ''robot'' ''g''))
   \<and> executeBot (env_with [] None) (task_for ''robot'' ''h'') (Some handler_callback)
       (world_with rows (task_for ''robot'' ''h''))
     = (Err ''failed to load mind: record not found'', world_with rows (task_for ''robot'' ''h''))"
proof -
  let ?e = "env_with [] None"
  let ?g = "task_for ''robot'' ''g''"
  let ?h = "task_for ''robot'' ''h''"
  have g: "Resources_GetByName (world_with rows ?g) (task_WorkspaceID ?g) (task_ResourceName ?g)
      ResourceTypeRobot = Inr (rows ! 3) \<and> Parse (yaml_lib ?e) (res_Spec (rows ! 3))
      = Inr (RRobot robot_g)"
    by (simp add: task_for_simps GetByName_rows rows_Spec env_with_simps Parse_table_simps)
  have g': "Resources_GetByName (world_with rows ?g) (task_WorkspaceID ?g)
      (robot_Soul (robot_Spec robot_g)) ResourceTypeSoul = Inl ''record not found''"
    by (simp add: task_for_simps GetByName_rows robot_simps)
  have h: "Resources_GetByName (world_with rows ?h) (task_WorkspaceID ?h) (task_ResourceName ?h)
      ResourceTypeRobot = Inr (rows ! 6) \<and> Parse (yaml_lib ?e) (res_Spec (rows ! 6))
      = Inr (RRobot robot_h)"
    by (simp add: task_for_simps GetByName_rows rows_Spec env_with_simps Parse_table_simps)
  have h': "Resources_GetByName (world_with rows ?h) (task_WorkspaceID ?h)
        (robot_Soul (robot_Spec robot_h)) ResourceTypeSoul = Inr (rows ! 0)
      \<and> Parse (yaml_lib ?e) (res_Spec (rows ! 0)) = Inr (RSoul soul_a)
      \<and> Resources_GetByName (world_with rows ?h) (task_WorkspaceID ?h)
        (robot_Mind (robot_Spec robot_h)) ResourceTypeMind = Inl ''record not found''"
    by (simp add: task_for_simps GetByName_rows rows_Spec env_with_simps Parse_table_simps
        robot_simps)
  have 1: "executeBot ?e ?g (Some handler_callback) (world_with rows ?g)
     = (Err (''failed to load soul: '' @ ''record not found''), world_with rows ?g)"
    using C4_missing_reference [of "world_with rows ?g" ?g "rows ! 3" ?e robot_g
        "Some handler_callback", rule_format, OF g, THEN conjunct1, rule_format, OF g'] .
  have 2: "executeBot ?e ?h (Some handler_callback) (world_with rows ?h)
     = (Err (''failed to load mind: '' @ ''record not found''), world_with rows ?h)"
    using C4_missing_reference [of "world_with rows ?h" ?h "rows ! 6" ?e robot_h
        "Some handler_callback", rule_format, OF h, THEN conjunct2, rule_format, OF h'] .
  from 1 2 show ?thesis by simp
qed

lemma loadMembers_skip:
  "loadRobotAsMember e w workspaceID n = Err err \<Longrightarrow>
   loadMembers e w workspaceID (n # rest) members leaderMind
     = loadMembers e w workspaceID rest members leaderMind"
  by simp

lemma loaded_members_Cons:
  "loaded_members e w workspaceID (n # names) =
     (case loadRobotAsMember e w workspaceID n of
        Ok r \<Rightarrow> r # loaded_members e w workspaceID names
      | Err err \<Rightarrow> loaded_members e w workspaceID names
      | Panic p \<Rightarrow> loaded_members e w workspaceID names)"
  by (simp add: loaded_members_def split: outcome.splits)

lemma loaded_members_Nil: "loaded_members e w workspaceID [] = []"
  by (simp add: loaded_members_def)

lemma loadMembers_no_panic:
  "\<forall>n \<in> set names. \<not> is_Panic (loadRobotAsMember e w workspaceID n) \<Longrightarrow>
   loadMembers e w workspaceID names members leaderMind =
     Ok (members @ map fst (loaded_members e w workspaceID names),
         case leaderMind of
           Some m \<Rightarrow> Some m
         | None \<Rightarrow> (case loaded_members e w workspaceID names of
                      [] \<Rightarrow> None | r # rs \<Rightarrow> Some (snd r)))"
proof (induction names arbitrary: members leaderMind)
  case Nil
  then show ?case by (simp add: loaded_members_Nil split: option.splits)
next
  case (Cons n names)
  then have IH: "\<And>members leaderMind. loadMembers e w workspaceID names members leaderMind =
     Ok (members @ map fst (loaded_members e w workspaceID names),
         case leaderMind of
           Some m \<Rightarrow> Some m
         | None \<Rightarrow> (case loaded_members e w workspaceID names of
                      [] \<Rightarrow> None | r # rs \<Rightarrow> Some (snd r)))"
    by simp
  from Cons.prems have np: "\<not> is_Panic (loadRobotAsMember e w workspaceID n)" by simp
  show ?case
  proof (cases "loadRobotAsMember e w workspaceID n")
    case (Ok r)
    obtain member mindDef where r: "r = (member, mindDef)" by (cases r)
    show ?thesis
      by (simp add: Ok r IH loaded_members_Cons split: option.splits)
  next
    case (Err err)
    then show ?thesis by (simp add: IH loaded_members_Cons split: option.splits)
  next
    case (Panic p)
    with np show ?thesis by simp
  qed
qed

lemma rows_Spec_Suc: "res_Spec (rows ! Suc 0) = mind_m_text"
  by (simp add: rows_def)

lemma team_simps:
  "Leader (team_Spec team_t) = ''g''" "Members (team_Spec team_t) = [''r'']"
  "Leader (team_Spec team_u) = []" "Members (team_Spec team_u) = [''g'', ''r'']"
  by (simp_all add: team_t_def team_u_def)

lemma loadRobotAsMember_rows:
  "loadRobotAsMember (env_with ls x) (world_with rows t) (Suc 0) ''g''
     = Err ''failed to load soul: record not found''"
  "loadRobotAsMember (env_with ls x) (world_with rows t) (Suc 0) ''r''
     = Ok (\<lparr>mem_Name = ''r'', mem_Model = model_of mind_m,
            mem_Personality = ''You are helpful.'', mem_Description = []\<rparr>, mind_m)"
  by (simp_all add: loadRobotAsMember_def GetByName_rows rows_Spec rows_Spec_Suc env_with_simps
      Parse_table_simps robot_simps)
    (simp add: robot_r_def meta_named_def soul_a_def)

lemma loaded_members_rows:
  "loaded_members (env_with ls x) (world_with rows t) (Suc 0) [''g'', ''r'']
     = [(\<lparr>mem_Name = ''r'', mem_Model = model_of mind_m,
            mem_Personality = ''You are helpful.'', mem_Description = []\<rparr>, mind_m)]"
  "loaded_members (env_with ls x) (world_with rows t) (Suc 0) [''r'']
     = [(\<lparr>mem_Name = ''r'', mem_Model = model_of mind_m,
            mem_Personality = ''You are helpful.'', mem_Description = []\<rparr>, mind_m)]"
  by (simp_all add: loaded_members_Cons loaded_members_Nil loadRobotAsMember_rows)

text \<open>
  C5, as stated, lets a team plan fail exactly when zero valid members and no leader remain.
  The team t names the leader g, whose Soul is missing, and the member r, which loads: the plan
  fails with the leader's error although a valid member remains.
\<close>

theorem C5_counterexample:
  "executeTeam (env_with [] None) (task_for ''team'' ''t'') None
       (world_with rows (task_for ''team'' ''t''))
     = (Err ''failed to load leader robot: failed to load soul: record not found'',
        world_with rows (task_for ''team'' ''t''))
   \<and> map (\<lambda>r. mem_Name (fst r))
        (loaded_members (env_with [] None) (world_with rows (task_for ''team'' ''t'')) 1
           (Members (team_Spec team_t))) = [''r'']"
  by (simp add: executeTeam_def executeTeam_config_def loadLeader_def task_for_simps
      GetByName_rows rows_Spec env_with_simps Parse_table_simps team_simps
      loadRobotAsMember_rows loaded_members_rows)

text \<open>
  C5, amended: in the loop over the members of a team, a member robot that fails to load with
  an error is skipped. For a team that loads and parses and none of whose members panics while
  loading: when no leader is named, the plan fails with "team has no valid members or leader"
  exactly when no member loads, and otherwise it is built with the members that load, in order,
  and the Mind of the first of them as the driving mind; when a leader is named, a failure to
  load it fails the plan with the leader's error whatever the members, and a leader that loads
  gives the plan with the leader, the members that load (possibly none) and the leader's Mind
  as the driving mind.
\<close>

theorem C5_team_plan:
  "(\<forall>n rest members leaderMind err.
      loadRobotAsMember e w (task_WorkspaceID task) n = Err err \<longrightarrow>
      loadMembers e w (task_WorkspaceID task) (n # rest) members leaderMind
        = loadMembers e w (task_WorkspaceID task) rest members leaderMind)
   \<and> (Resources_GetByName w (task_WorkspaceID task) (task_ResourceName task) ResourceTypeTeam
        = Inr teamRow
      \<and> Parse (yaml_lib e) (res_Spec teamRow) = Inr (RTeam teamDef)
      \<and> (\<forall>n \<in> set (Members (team_Spec teamDef)).
            \<not> is_Panic (loadRobotAsMember e w (task_WorkspaceID task) n)) \<longrightarrow>
      (Leader (team_Spec teamDef) = [] \<longrightarrow>
         (loaded_members e w (task_WorkspaceID task) (Members (team_Spec teamDef)) = [] \<longrightarrow>
            executeTeam_config e task w = Err ''team has no valid members or leader'')
         \<and> (\<forall>m mind rest.
              loaded_members e w (task_WorkspaceID task) (Members (team_Spec teamDef))
                = (m, mind) # rest \<longrightarrow>
              (\<exists>config team.
                 executeTeam_config e task w = Ok config \<and> cfg_Model config = model_of mind
                 \<and> cfg_Team config = Some team \<and> tc_Leader team = None
                 \<and> tc_Members team = m # map fst rest)))
      \<and> (Leader (team_Spec teamDef) \<noteq> [] \<longrightarrow>
         (\<forall>err.
            loadRobotAsMember e w (task_WorkspaceID task) (Leader (team_Spec teamDef)) = Err err
            \<longrightarrow> executeTeam_config e task w = Err (''failed to load leader robot: '' @ err))
         \<and> (\<forall>lm lmind.
              loadRobotAsMember e w (task_WorkspaceID task) (Leader (team_Spec teamDef))
                = Ok (lm, lmind) \<longrightarrow>
              (\<exists>config team.
                 executeTeam_config e task w = Ok config \<and> cfg_Model config = model_of lmind
                 \<and> cfg_Team config = Some team \<and> tc_Leader team = Some lm
                 \<and> tc_Members team
                     = map fst (loaded_members e w (task_WorkspaceID task)
                          (Members (team_Spec teamDef)))))))"
proof -
  let ?ws = "task_WorkspaceID task"
  have skip: "\<forall>n rest members leaderMind err.
      loadRobotAsMember e w ?ws n = Err err \<longrightarrow>
      loadMembers e w ?ws (n # rest) members leaderMind
        = loadMembers e w ?ws rest members leaderMind"
    by simp
  have plan: "(Leader (team_Spec teamDef) = [] \<longrightarrow>
         (loaded_members e w ?ws (Members (team_Spec teamDef)) = [] \<longrightarrow>
            executeTeam_config e task w = Err ''team has no valid members or leader'')
         \<and> (\<forall>m mind rest.
              loaded_members e w ?ws (Members (team_Spec teamDef)) = (m, mind) # rest \<longrightarrow>
              (\<exists>config team.
                 executeTeam_config e task w = Ok config \<and> cfg_Model config = model_of mind
                 \<and> cfg_Team config = Some team \<and> tc_Leader team = None
                 \<and> tc_Members team = m # map fst rest)))
      \<and> (Leader (team_Spec teamDef) \<noteq> [] \<longrightarrow>
         (\<forall>err.
            loadRobotAsMember e w ?ws (Leader (team_Spec teamDef)) = Err err
            \<longrightarrow> executeTeam_config e task w = Err (''failed to load leader robot: '' @ err))
         \<and> (\<forall>lm lmind.
              loadRobotAsMember e w ?ws (Leader (team_Spec teamDef)) = Ok (lm, lmind) \<longrightarrow>
              (\<exists>config team.
                 executeTeam_config e task w = Ok config \<and> cfg_Model config = model_of lmind
                 \<and> cfg_Team config = Some team \<and> tc_Leader team = Some lm
                 \<and> tc_Members team
                     = map fst (loaded_members e w ?ws (Members (team_Spec teamDef))))))"
    if row: "Resources_GetByName w ?ws (task_ResourceName task) ResourceTypeTeam = Inr teamRow"
      and parse: "Parse (yaml_lib e) (res_Spec teamRow) = Inr (RTeam teamDef)"
      and np: "\<forall>n \<in> set (Members (team_Spec teamDef)).
            \<not> is_Panic (loadRobotAsMember e w ?ws n)"
  proof -
    note lm = loadMembers_no_panic [OF np]
    show ?thesis
      by (auto simp: executeTeam_config_def row parse loadLeader_def lm)
  qed
  from skip plan show ?thesis by blast
qed

theorem C5_team_plan_witness:
  "(\<exists>config team.
      executeTeam_config (env_with [] None) (task_for ''team'' ''u'')
          (world_with rows (task_for ''team'' ''u'')) = Ok config
      \<and> cfg_Model config = model_of mind_m \<and> cfg_Team config = Some team
      \<and> tc_Leader team = None
      \<and> tc_Members team = [\<lparr>mem_Name = ''r'', mem_Model = model_of mind_m,
            mem_Personality = ''You are helpful.'', mem_Description = []\<rparr>])
   \<and> executeTeam_config (env_with [] None) (task_for ''team'' ''t'')
          (world_with rows (task_for ''team'' ''t''))
        = Err ''failed to load leader robot: failed to load soul: record not found''"
proof -
  let ?e = "env_with [] None"
  let ?u = "task_for ''team'' ''u''"
  let ?t = "task_for ''team'' ''t''"
  let ?r = "\<lparr>mem_Name = ''r'', mem_Model = model_of mind_m,
            mem_Personality = ''You are helpful.'', mem_Description = []\<rparr>"
  have pu: "Resources_GetByName (world_with rows ?u) (task_WorkspaceID ?u) (task_ResourceName ?u)
        ResourceTypeTeam = Inr (rows ! 5)
      \<and> Parse (yaml_lib ?e) (res_Spec (rows ! 5)) = Inr (RTeam team_u)
      \<and> (\<forall>n \<in> set (Members (team_Spec team_u)).
            \<not> is_Panic (loadRobotAsMember ?e (world_with rows ?u) (task_WorkspaceID ?u) n))"
    by (simp add: task_for_simps GetByName_rows rows_Spec env_with_simps Parse_table_simps
        team_simps loadRobotAsMember_rows)
  have lu: "loaded_members ?e (world_with rows ?u) (task_WorkspaceID ?u)
      (Members (team_Spec team_u)) = (?r, mind_m) # []"
    by (simp add: task_for_simps team_simps loaded_members_rows)
  have pt: "Resources_GetByName (world_with rows ?t) (task_WorkspaceID ?t) (task_ResourceName ?t)
        ResourceTypeTeam = Inr (rows ! 4)
      \<and> Parse (yaml_lib ?e) (res_Spec (rows ! 4)) = Inr (RTeam team_t)
      \<and> (\<forall>n \<in> set (Members (team_Spec team_t)).
            \<not> is_Panic (loadRobotAsMember ?e (world_with rows ?t) (task_WorkspaceID ?t) n))"
    by (simp add: task_for_simps GetByName_rows rows_Spec env_with_simps Parse_table_simps
        team_simps loadRobotAsMember_rows)
  have lt: "loadRobotAsMember ?e (world_with rows ?t) (task_WorkspaceID ?t)
      (Leader (team_Spec team_t)) = Err ''failed to load soul: record not found''"
    by (simp add: task_for_simps team_simps loadRobotAsMember_rows)
  have nu: "Leader (team_Spec team_u) = []" and nt: "Leader (team_Spec team_t) \<noteq> []"
    by (simp_all add: team_simps)
  note U = C5_team_plan [of ?e "world_with rows ?u" ?u "rows ! 5" team_u, THEN conjunct2,
      rule_format, OF pu, THEN conjunct1, rule_format, OF nu, THEN conjunct2, rule_format, OF lu]
  note T = C5_team_plan [of ?e "world_with rows ?t" ?t "rows ! 4" team_t, THEN conjunct2,
      rule_format, OF pt, THEN conjunct2, rule_format, OF nt, THEN conjunct1, rule_format, OF lt]
  from U T show ?thesis by simp
qed

section \<open>Properties of the executor\<close>

subsection \<open>The store and the callback\<close>

lemma Tasks_Update_simps:
  "fst (Tasks_Update w t) = None"
  "db_tasks (snd (Tasks_Update w t)) = (db_tasks w)(task_ID t \<mapsto> t)"
  "saved (snd (Tasks_Update w t)) = saved w @ [(task_ID t, task_Status t)]"
  "db_resources (snd (Tasks_Update w t)) = db_resources w"
  "clock (snd (Tasks_Update w t)) = clock w"
  by (simp_all add: Tasks_Update_def)

lemma handler_callback_simps:
  "db_resources (handler_callback taskID p s m md w) = db_resources w"
  "clock (handler_callback taskID p s m md w) = clock w"
  "db_tasks (handler_callback taskID p s m md w) =
     (case db_tasks w taskID of
        None \<Rightarrow> db_tasks w
      | Some t \<Rightarrow>
          (db_tasks w)(taskID \<mapsto> t\<lparr>task_ID := taskID, task_Progress := p, task_Status := s\<rparr>))"
  "saved (handler_callback taskID p s m md w) =
     (case db_tasks w taskID of None \<Rightarrow> saved w | Some t \<Rightarrow> saved w @ [(taskID, s)])"
  by (simp_all add: handler_callback_def Let_def Tasks_GetByID_def Tasks_Update_def
      Tasks_AddLog_def split: option.splits)

lemma handler_callback_row:
  "db_tasks w taskID = Some t \<Longrightarrow>
   db_tasks (handler_callback taskID p s m md w) taskID
     = Some (t\<lparr>task_ID := taskID, task_Progress := p, task_Status := s\<rparr>)
   \<and> saved (handler_callback taskID p s m md w) = saved w @ [(taskID, s)]"
  by (simp add: handler_callback_simps)

lemma running_only_refl: "running_only taskID w w"
  by (cases "db_tasks w taskID") (simp_all add: running_only_def)

lemma running_only_trans:
  "running_only taskID w w' \<Longrightarrow> running_only taskID w' w'' \<Longrightarrow> running_only taskID w w''"
proof -
  assume a: "running_only taskID w w'" and b: "running_only taskID w' w''"
  from a obtain n where n: "saved w' = saved w @ replicate n (taskID, TaskStatusRunning)"
    by (auto simp: running_only_def)
  from b obtain m where m: "saved w'' = saved w' @ replicate m (taskID, TaskStatusRunning)"
    by (auto simp: running_only_def)
  from n m have "saved w'' = saved w @ replicate (n + m) (taskID, TaskStatusRunning)"
    by (simp add: replicate_add)
  then have "\<exists>k. saved w'' = saved w @ replicate k (taskID, TaskStatusRunning)" ..
  moreover from a b have "db_resources w'' = db_resources w" "clock w'' = clock w"
    "db_tasks w taskID = None \<or> db_tasks w'' taskID \<noteq> None"
    by (auto simp: running_only_def)
  ultimately show ?thesis by (simp add: running_only_def)
qed

lemma running_only_handler:
  "running_only taskID w (handler_callback taskID p TaskStatusRunning m md w)"
proof (cases "db_tasks w taskID")
  case None
  then show ?thesis by (simp add: running_only_def handler_callback_simps)
next
  case (Some t)
  have "[(taskID, TaskStatusRunning)] = replicate 1 (taskID, TaskStatusRunning)" by simp
  then have "\<exists>n. [(taskID, TaskStatusRunning)] = replicate n (taskID, TaskStatusRunning)" ..
  with Some show ?thesis
    by (simp add: running_only_def handler_callback_simps)
qed

lemma running_only_call:
  "running_only taskID w
     (case event_call ev of
        None \<Rightarrow> w
      | Some (p, m, md) \<Rightarrow>
          call_cb (Some handler_callback) taskID p TaskStatusRunning m (Some md) w)"
  by (cases "event_call ev") (auto simp: running_only_refl call_cb_def running_only_handler)

subsection \<open>The read loop\<close>

lemma scan_running_only:
  "running_only taskID w
     (scan_world (scan dec (Some handler_callback) taskID lines fc le logs w))"
proof (induction lines arbitrary: fc le logs w)
  case Nil
  then show ?case by (simp add: running_only_refl)
next
  case (Cons line lines)
  show ?case
  proof (cases "dec line")
    case None
    with Cons.IH show ?thesis by simp
  next
    case (Some ev)
    let ?w = "case event_call ev of
        None \<Rightarrow> w
      | Some (p, m, md) \<Rightarrow>
          call_cb (Some handler_callback) taskID p TaskStatusRunning m (Some md) w"
    have "running_only taskID w ?w" by (rule running_only_call)
    moreover have "running_only taskID ?w (scan_world
        (scan dec (Some handler_callback) taskID lines
           (if event_Type ev = ''content'' then fc @ event_Content ev else fc) le
           (logs @ [line]) ?w))"
      by (rule Cons.IH)
    ultimately have "running_only taskID w (scan_world
        (scan dec (Some handler_callback) taskID lines
           (if event_Type ev = ''content'' then fc @ event_Content ev else fc) le
           (logs @ [line]) ?w))"
      by (rule running_only_trans)
    with Some Cons.IH [where w = w] show ?thesis
      by (simp add: running_only_refl)
  qed
qed

lemma decoded_simps:
  "decoded dec [] = []"
  "decoded dec (line # lines) =
     (case dec line of None \<Rightarrow> decoded dec lines | Some ev \<Rightarrow> ev # decoded dec lines)"
  by (simp_all add: decoded_def split: option.splits)

lemma content_of_Cons:
  "content_of (ev # evs) =
     (if event_Type ev = ''content'' then event_Content ev @ content_of evs else content_of evs)"
  by (simp add: content_of_def)

lemma scan_content_eq:
  "scan_content (scan dec callback taskID lines fc le logs w)
     = fc @ content_of (before_cancelled (decoded dec lines))"
proof (induction lines arbitrary: fc le logs w)
  case Nil
  then show ?case by (simp add: decoded_simps before_cancelled_def content_of_def)
next
  case (Cons line lines)
  show ?case
  proof (cases "dec line")
    case None
    with Cons.IH show ?thesis by (simp add: decoded_simps)
  next
    case (Some ev)
    then show ?thesis
      using Cons.IH
      by (auto simp: decoded_simps before_cancelled_def content_of_Cons content_of_def)
  qed
qed

lemma scan_no_cancelled:
  "\<forall>ev \<in> set (decoded dec lines). event_Type ev \<noteq> ''cancelled'' \<Longrightarrow>
   \<exists>logs' w'. scan dec callback taskID lines fc le logs w
     = Loop_done (fc @ content_of (decoded dec lines)) (last_error le (decoded dec lines)) logs' w'"
proof (induction lines arbitrary: fc le logs w)
  case Nil
  then show ?case by (simp add: decoded_simps content_of_def last_error_def)
next
  case (Cons line lines)
  show ?case
  proof (cases "dec line")
    case None
    with Cons show ?thesis by (simp add: decoded_simps)
  next
    case (Some ev)
    with Cons.prems have nc: "event_Type ev \<noteq> ''cancelled''"
      and rest: "\<forall>ev \<in> set (decoded dec lines). event_Type ev \<noteq> ''cancelled''"
      by (simp_all add: decoded_simps)
    show ?thesis
    proof (cases "event_Type ev = ''error''")
      case True
      from Cons.IH [OF rest, where fc = fc and le = "event_Content ev"
          and logs = "logs @ [line]" and w = w] Some nc True
      show ?thesis
        by (simp add: decoded_simps content_of_Cons last_error_def)
    next
      case False
      let ?w = "case event_call ev of
          None \<Rightarrow> w
        | Some (p, m, md) \<Rightarrow> call_cb callback taskID p TaskStatusRunning m (Some md) w"
      from Cons.IH [OF rest, where fc = "if event_Type ev = ''content''
            then fc @ event_Content ev else fc" and le = le
          and logs = "logs @ [line]" and w = ?w] Some nc False
      show ?thesis
        by (auto simp: decoded_simps content_of_Cons last_error_def)
    qed
  qed
qed

subsection \<open>The runner\<close>

lemma runAgnoScript_starts:
  "starts e (run e config) \<Longrightarrow>
   runAgnoScript e config taskID callback w =
     (case scan (json_event e) callback taskID (stdout_lines (run e config)) [] [] [] w of
        Return_cancelled fullContent eventLogs w' \<Rightarrow> (Ok (fullContent, join_nl eventLogs), w')
      | Loop_done fullContent lastError eventLogs w' \<Rightarrow>
          (case wait_err (run e config) of
             Some err \<Rightarrow>
               if lastError \<noteq> [] then (Err (''python script error: '' @ lastError), w')
               else (Err (''python script finished with error: '' @ err), w')
           | None \<Rightarrow> (Ok (fullContent, join_nl eventLogs), w')))"
  by (simp add: runAgnoScript_def starts_def Let_def)



lemma runAgnoScript_no_Panic: "\<not> is_Panic (fst (runAgnoScript e config taskID callback w))"
  by (simp add: runAgnoScript_def Let_def split: option.splits scan_result.splits)

lemma runAgnoScript_exit0:
  assumes "starts e (run e config)" and "wait_err (run e config) = None"
  shows "\<exists>logs. fst (runAgnoScript e config taskID callback w)
     = Ok (content_of (before_cancelled (decoded (json_event e) (stdout_lines (run e config)))),
           logs)"
proof -
  let ?s = "scan (json_event e) callback taskID (stdout_lines (run e config)) [] [] [] w"
  have c: "scan_content ?s
      = content_of (before_cancelled (decoded (json_event e) (stdout_lines (run e config))))"
    using scan_content_eq [of "json_event e" callback taskID "stdout_lines (run e config)" "[]"]
    by simp
  show ?thesis
  proof (cases ?s)
    case (Return_cancelled fc logs w')
    with c assms show ?thesis by (simp add: runAgnoScript_starts)
  next
    case (Loop_done fc le logs w')
    with c assms show ?thesis by (simp add: runAgnoScript_starts)
  qed
qed

lemma runAgnoScript_error:
  assumes "starts e (run e config)" and "wait_err (run e config) = Some x"
    and "\<forall>ev \<in> set (decoded (json_event e) (stdout_lines (run e config))).
           event_Type ev \<noteq> ''cancelled''"
    and "last_error [] (decoded (json_event e) (stdout_lines (run e config))) \<noteq> []"
  shows "fst (runAgnoScript e config taskID callback w)
     = Err (''python script error: ''
            @ last_error [] (decoded (json_event e) (stdout_lines (run e config))))"
proof -
  from scan_no_cancelled [OF assms(3), of callback taskID "[]" "[]" "[]" w]
  obtain logs' w' where "scan (json_event e) callback taskID (stdout_lines (run e config))
        [] [] [] w
      = Loop_done (content_of (decoded (json_event e) (stdout_lines (run e config))))
          (last_error [] (decoded (json_event e) (stdout_lines (run e config)))) logs' w'"
    by auto
  with assms show ?thesis by (simp add: runAgnoScript_starts)
qed

subsection \<open>The plan depends on the resources only\<close>

lemma GetByName_cong:
  "db_resources w' = db_resources w \<Longrightarrow>
   Resources_GetByName w' workspaceID name ty = Resources_GetByName w workspaceID name ty"
  by (simp add: Resources_GetByName_def)

lemma loadRobotAsMember_cong:
  assumes "db_resources w' = db_resources w"
  shows "loadRobotAsMember e w' workspaceID name = loadRobotAsMember e w workspaceID name"
  unfolding loadRobotAsMember_def by (simp only: GetByName_cong [OF assms])

lemma loadMembers_cong:
  assumes "db_resources w' = db_resources w"
  shows "loadMembers e w' workspaceID names members leaderMind
     = loadMembers e w workspaceID names members leaderMind"
  by (induction names arbitrary: members leaderMind)
    (simp_all add: loadRobotAsMember_cong [OF assms] split: outcome.splits)

lemma loadMCPTools_cong:
  assumes "db_resources w' = db_resources w"
  shows "loadMCPTools e w' workspaceID name = loadMCPTools e w workspaceID name"
  unfolding loadMCPTools_def by (simp only: GetByName_cong [OF assms])

lemma started_task_fields:
  "task_ID (started_task task w0) = task_ID task"
  "task_WorkspaceID (started_task task w0) = task_WorkspaceID task"
  "task_ResourceType (started_task task w0) = task_ResourceType task"
  "task_ResourceName (started_task task w0) = task_ResourceName task"
  "task_Prompt (started_task task w0) = task_Prompt task"
  "task_GitURL (started_task task w0) = task_GitURL task"
  "task_BranchName (started_task task w0) = task_BranchName task"
  "task_Result (started_task task w0) = task_Result task"
  "task_Error (started_task task w0) = task_Error task"
  "task_EventLogs (started_task task w0) = task_EventLogs task"
  "task_Progress (started_task task w0) = task_Progress task"
  "task_Status (started_task task w0) = TaskStatusRunning"
  by (simp_all add: started_task_def)

lemma executeBot_config_cong:
  assumes "db_resources w' = db_resources w"
  shows "executeBot_config e (started_task task w0) w' = executeBot_config e task w"
  unfolding executeBot_config_def context_of_def
  by (simp only: started_task_fields GetByName_cong [OF assms] loadMCPTools_cong [OF assms])

lemma executeTeam_config_cong:
  assumes "db_resources w' = db_resources w"
  shows "executeTeam_config e (started_task task w0) w' = executeTeam_config e task w"
  unfolding executeTeam_config_def context_of_def loadLeader_def
  by (simp only: started_task_fields GetByName_cong [OF assms] loadMembers_cong [OF assms]
      loadRobotAsMember_cong [OF assms])

lemma execution_plan_cong:
  assumes "db_resources w' = db_resources w"
  shows "execution_plan e (started_task task w0) w' = execution_plan e task w"
  unfolding execution_plan_def
  by (simp only: started_task_fields executeBot_config_cong [OF assms]
      executeTeam_config_cong [OF assms])

subsection \<open>The shape of \<open>Execute\<close>\<close>

lemma Execute_finish:
  "Execute e task callback w =
     finish (started_task task w) (clock w) callback
       (run_plan e (started_task task w) callback (started_world task callback w))"
proof -
  have sw: "(if task_ResourceType (started_task task w) = ''bot''
               \<or> task_ResourceType (started_task task w) = ''robot''
             then executeBot e (started_task task w) callback w2
             else if task_ResourceType (started_task task w) = ''team''
               then executeTeam e (started_task task w) callback w2
             else (Err (''unsupported resource type: ''
                        @ task_ResourceType (started_task task w)), w2))
      = run_plan e (started_task task w) callback w2" for w2
    by (simp add: run_plan_def execution_plan_def executeBot_def executeTeam_def)
  have id: "task_ID (started_task task w) = task_ID task" by (simp add: started_task_def)
  show ?thesis
    unfolding Execute_def Let_def
    apply (fold started_task_def)
    apply (simp only: sw id Tasks_Update_def prod.case)
    apply (simp add: finish_def started_world_def Tasks_Update_def Let_def id
        split: prod.splits outcome.splits)
    done
qed

lemma started_world_handler:
  "saved (started_world task (Some handler_callback) w)
     = saved w @ replicate 2 (task_ID task, TaskStatusRunning)"
  "db_tasks (started_world task (Some handler_callback) w) (task_ID task) \<noteq> None"
  "db_resources (started_world task (Some handler_callback) w) = db_resources w"
  "clock (started_world task (Some handler_callback) w) = clock w"
  by (simp_all add: started_world_def call_cb_def handler_callback_simps Tasks_Update_simps
      started_task_def numeral_2_eq_2)


lemma run_plan_started:
  "run_plan e (started_task task w) (Some handler_callback)
       (started_world task (Some handler_callback) w)
     = (case execution_plan e task w of
          Ok config \<Rightarrow> runAgnoScript e config (task_ID task) (Some handler_callback)
                         (started_world task (Some handler_callback) w)
        | Err err \<Rightarrow> (Err err, started_world task (Some handler_callback) w)
        | Panic p \<Rightarrow> (Panic p, started_world task (Some handler_callback) w))"
proof -
  have "execution_plan e (started_task task w) (started_world task (Some handler_callback) w)
      = execution_plan e task w"
    by (rule execution_plan_cong) (rule started_world_handler)
  then show ?thesis
    by (cases "execution_plan e task w") (simp_all add: run_plan_def started_task_fields)
qed


subsection \<open>The outcomes of \<open>Execute\<close> with the handler's callback\<close>

lemma finish_Ok:
  assumes "fst rw = Ok (result, logs)" and "task_ID t1 = taskID"
  shows "\<exists>task' w'. finish t1 started (Some handler_callback) rw = (Ok (), task', w')
     \<and> task_Status task' = TaskStatusCompleted \<and> task_Progress task' = 100
     \<and> task_Result task' = result \<and> task_EventLogs task' = logs
     \<and> db_tasks w' taskID = Some task'
     \<and> saved w' = saved (snd rw) @ replicate 2 (taskID, TaskStatusCompleted)"
  using assms
  by (simp add: finish_def Let_def call_cb_def handler_callback_simps Tasks_Update_simps
      numeral_2_eq_2)

lemma finish_Err:
  assumes "fst rw = Err err" and "task_ID t1 = taskID"
  shows "\<exists>task' w'. finish t1 started (Some handler_callback) rw = (Err err, task', w')
     \<and> task_Status task' = TaskStatusFailed \<and> task_Error task' = err
     \<and> task_Result task' = task_Result t1 \<and> task_EventLogs task' = task_EventLogs t1
     \<and> db_tasks w' taskID = Some (task'\<lparr>task_Progress := 0\<rparr>)
     \<and> saved w' = saved (snd rw) @ replicate 2 (taskID, TaskStatusFailed)"
  using assms
  by (simp add: finish_def Let_def call_cb_def handler_callback_simps Tasks_Update_simps
      numeral_2_eq_2)


lemma Execute_success:
  assumes plan: "execution_plan e task w = Ok config"
    and st: "starts e (run e config)" and ex: "wait_err (run e config) = None"
  shows "\<exists>task' w'. Execute e task (Some handler_callback) w = (Ok (), task', w')
     \<and> task_Status task' = TaskStatusCompleted \<and> task_Progress task' = 100
     \<and> task_Result task'
         = content_of (before_cancelled (decoded (json_event e) (stdout_lines (run e config))))
     \<and> db_tasks w' (task_ID task) = Some task'"
proof -
  let ?w2 = "started_world task (Some handler_callback) w"
  let ?rw = "runAgnoScript e config (task_ID task) (Some handler_callback) ?w2"
  from runAgnoScript_exit0 [OF st ex, of "task_ID task" "Some handler_callback" ?w2]
  obtain logs where r: "fst ?rw
     = Ok (content_of (before_cancelled (decoded (json_event e) (stdout_lines (run e config)))),
           logs)" by blast
  have E: "Execute e task (Some handler_callback) w
      = finish (started_task task w) (clock w) (Some handler_callback) ?rw"
    by (simp add: Execute_finish run_plan_started plan)
  from finish_Ok [OF r, of "started_task task w" "task_ID task" "clock w"]
  show ?thesis unfolding E by (auto simp: started_task_fields)
qed

lemma Execute_runner_error:
  assumes plan: "execution_plan e task w = Ok config"
    and st: "starts e (run e config)" and ex: "wait_err (run e config) = Some x"
    and nc: "\<forall>ev \<in> set (decoded (json_event e) (stdout_lines (run e config))).
           event_Type ev \<noteq> ''cancelled''"
    and le: "last_error [] (decoded (json_event e) (stdout_lines (run e config))) \<noteq> []"
  shows "\<exists>task' w'. Execute e task (Some handler_callback) w
       = (Err (''python script error: ''
               @ last_error [] (decoded (json_event e) (stdout_lines (run e config)))),
          task', w')
     \<and> task_Status task' = TaskStatusFailed
     \<and> task_Error task' = ''python script error: ''
          @ last_error [] (decoded (json_event e) (stdout_lines (run e config)))
     \<and> task_Result task' = task_Result task \<and> task_EventLogs task' = task_EventLogs task
     \<and> db_tasks w' (task_ID task) = Some (task'\<lparr>task_Progress := 0\<rparr>)"
proof -
  let ?w2 = "started_world task (Some handler_callback) w"
  let ?rw = "runAgnoScript e config (task_ID task) (Some handler_callback) ?w2"
  note r = runAgnoScript_error [OF st ex nc le, of "task_ID task" "Some handler_callback" ?w2]
  have E: "Execute e task (Some handler_callback) w
      = finish (started_task task w) (clock w) (Some handler_callback) ?rw"
    by (simp add: Execute_finish run_plan_started plan)
  from finish_Err [OF r, of "started_task task w" "task_ID task" "clock w"]
  show ?thesis unfolding E by (auto simp: started_task_fields)
qed

lemma processTask_world:
  "snd (processTask e q item w) =
     (case fst (Execute e (item_Task item) (item_Callback item) w) of
        Ok u \<Rightarrow> snd (snd (Execute e (item_Task item) (item_Callback item) w))
      | Err err \<Rightarrow>
          call_cb (item_Callback item) (task_ID (item_Task item)) 0 TaskStatusFailed
            (''execution failed: '' @ err) None
            (snd (snd (Execute e (item_Task item) (item_Callback item) w)))
      | Panic p \<Rightarrow>
          call_cb (item_Callback item) (task_ID (item_Task item)) 0 TaskStatusFailed
            (''panic: '' @ p) None
            (snd (snd (Execute e (item_Task item) (item_Callback item) w))))"
  by (simp add: processTask_def Let_def split: prod.splits outcome.splits)


lemma processTask_runner_error:
  assumes plan: "execution_plan e task w = Ok config"
    and st: "starts e (run e config)" and ex: "wait_err (run e config) = Some x"
    and nc: "\<forall>ev \<in> set (decoded (json_event e) (stdout_lines (run e config))).
           event_Type ev \<noteq> ''cancelled''"
    and le: "last_error [] (decoded (json_event e) (stdout_lines (run e config))) \<noteq> []"
  shows "map_option (\<lambda>t. (task_Status t, task_Error t, task_Result t, task_EventLogs t))
       (db_tasks (snd (processTask e q \<lparr>item_Task = task, item_Callback = Some handler_callback\<rparr> w))
          (task_ID task))
     = Some (TaskStatusFailed,
             ''python script error: ''
               @ last_error [] (decoded (json_event e) (stdout_lines (run e config))),
             task_Result task, task_EventLogs task)"
proof -
  from Execute_runner_error [OF plan st ex nc le]
  obtain task' w' where E: "Execute e task (Some handler_callback) w
       = (Err (''python script error: ''
               @ last_error [] (decoded (json_event e) (stdout_lines (run e config)))),
          task', w')"
    and f: "task_Status task' = TaskStatusFailed"
      "task_Error task' = ''python script error: ''
          @ last_error [] (decoded (json_event e) (stdout_lines (run e config)))"
      "task_Result task' = task_Result task" "task_EventLogs task' = task_EventLogs task"
    and row: "db_tasks w' (task_ID task) = Some (task'\<lparr>task_Progress := 0\<rparr>)"
    by blast
  show ?thesis
    by (simp add: processTask_world E call_cb_def handler_callback_simps row f)
qed





lemma scan_keeps_row:
  "db_tasks w taskID \<noteq> None \<Longrightarrow>
   db_tasks (scan_world (scan dec (Some handler_callback) taskID lines fc le logs w)) taskID
     \<noteq> None"
  using scan_running_only [of taskID w dec lines fc le logs]
  by (auto simp: running_only_def)






lemma json_table_simps:
  "json_table line_started
     = Some \<lparr>event_Type = ''started'', event_Content = [], event_Details = None\<rparr>"
  "json_table line_hello
     = Some \<lparr>event_Type = ''content'', event_Content = ''hello'', event_Details = None\<rparr>"
  "json_table line_world
     = Some \<lparr>event_Type = ''content'', event_Content = '' world'', event_Details = None\<rparr>"
  "json_table line_completed
     = Some \<lparr>event_Type = ''completed'', event_Content = [], event_Details = None\<rparr>"
  "json_table line_partial
     = Some \<lparr>event_Type = ''content'', event_Content = ''partial'', event_Details = None\<rparr>"
  "json_table line_boom
     = Some \<lparr>event_Type = ''error'', event_Content = ''boom'', event_Details = None\<rparr>"
  "json_table line_cancelled
     = Some \<lparr>event_Type = ''cancelled'', event_Content = [], event_Details = None\<rparr>"
  by (simp_all add: json_table_def line_started_def line_hello_def line_world_def
      line_completed_def line_partial_def line_boom_def line_cancelled_def)

lemma plan_task1:
  "\<exists>config. execution_plan (env_with ls x) task1 (world_with rows t) = Ok config"
  by (simp add: execution_plan_def executeBot_config_def task1_def task_for_simps
      GetByName_rows rows_Spec rows_Spec_Suc env_with_simps Parse_table_simps robot_simps)

lemma starts_env_with: "starts (env_with ls x) (run (env_with ls x) config)"
  by (simp add: starts_def env_with_simps)

subsection \<open>Clean exit of the runner\<close>

text \<open>
  C9, as stated, gives on a clean exit a result equal to the concatenation of the content of all
  \<open>content\<close> events of the stream. The runner that writes the content "hello", then a
  \<open>cancelled\<close> event, then the content " world", and exits with code 0, ends completed with
  the result "hello": the read loop returns at the \<open>cancelled\<close> event.
\<close>

theorem C9_counterexample:
  "fst (Execute (env_with [line_hello, line_cancelled, line_world] None) task1
          (Some handler_callback) world1) = Ok ()
   \<and> task_Result (fst (snd (Execute (env_with [line_hello, line_cancelled, line_world] None)
          task1 (Some handler_callback) world1))) = ''hello''
   \<and> content_of (decoded json_table [line_hello, line_cancelled, line_world]) = ''hello world''"
proof -
  let ?e = "env_with [line_hello, line_cancelled, line_world] None"
  from plan_task1 [of "[line_hello, line_cancelled, line_world]" None task1]
  obtain config where plan: "execution_plan ?e task1 world1 = Ok config"
    by (auto simp: world1_def)
  have ex: "wait_err (run ?e config) = None" by (simp add: env_with_simps)
  have c: "content_of (before_cancelled (decoded (json_event ?e) (stdout_lines (run ?e config))))
      = ''hello''"
    by (simp add: env_with_simps decoded_simps json_table_simps before_cancelled_def
        content_of_def)
  from Execute_success [OF plan starts_env_with ex] c
  have "fst (Execute ?e task1 (Some handler_callback) world1) = Ok ()
     \<and> task_Result (fst (snd (Execute ?e task1 (Some handler_callback) world1))) = ''hello''"
    by auto
  moreover have "content_of (decoded json_table [line_hello, line_cancelled, line_world])
      = ''hello world''"
    by (simp add: decoded_simps json_table_simps content_of_def)
  ultimately show ?thesis by blast
qed

text \<open>
  C9, amended: when the plan of a task is resolved, the runner starts and exits cleanly (exit
  code 0), the executor writes status completed, progress 100 and a result equal to the
  concatenation, in stream order, of the content of the \<open>content\<close> events that precede the
  first \<open>cancelled\<close> event (all of them when there is none); other event types contribute
  nothing to the result. The task row stored at the end is the task so written.
\<close>

theorem C9_completed:
  "execution_plan e task w = Ok config \<and> starts e (run e config)
   \<and> wait_err (run e config) = None \<longrightarrow>
   (\<exists>task' w'. Execute e task (Some handler_callback) w = (Ok (), task', w')
     \<and> task_Status task' = TaskStatusCompleted \<and> task_Progress task' = 100
     \<and> task_Result task'
         = content_of (before_cancelled (decoded (json_event e) (stdout_lines (run e config))))
     \<and> db_tasks w' (task_ID task) = Some task')"
  using Execute_success [of e task w config] by blast

theorem C9_completed_witness:
  "\<exists>task' w'.
     Execute (env_with [line_started, line_hello, line_world, line_completed] None) task1
       (Some handler_callback) world1 = (Ok (), task', w')
     \<and> task_Status task' = TaskStatusCompleted \<and> task_Progress task' = 100
     \<and> task_Result task' = ''hello world'' \<and> db_tasks w' 1 = Some task'"
proof -
  let ?e = "env_with [line_started, line_hello, line_world, line_completed] None"
  from plan_task1 [of "[line_started, line_hello, line_world, line_completed]" None task1]
  obtain config where plan: "execution_plan ?e task1 world1 = Ok config"
    by (auto simp: world1_def)
  have ex: "wait_err (run ?e config) = None" by (simp add: env_with_simps)
  have c: "content_of (before_cancelled (decoded (json_event ?e) (stdout_lines (run ?e config))))
      = ''hello world''"
    by (simp add: env_with_simps decoded_simps json_table_simps before_cancelled_def
        content_of_def)
  have id: "task_ID task1 = 1" by (simp add: task1_def task_for_simps)
  from C9_completed [of ?e task1 world1 config] plan starts_env_with [of _ _ config] ex
  show ?thesis unfolding c id by blast
qed

subsection \<open>Failure of the runner\<close>

text \<open>
  C2, as stated, keeps every emitted event line in the task's event_logs when the runner fails.
  In scenario S3 (the content "partial", then the error "boom", exit status 1) the task ends
  failed with the error "python script error: boom", and its event_logs are empty:
  \<open>runAgnoScript\<close> returns no event logs with an error, and \<open>Execute\<close> stores none on failure.
\<close>

theorem C2_counterexample:
  "map_option (\<lambda>t. (task_Status t, task_Error t, task_Result t, task_EventLogs t))
     (db_tasks (snd (processTask (env_with [line_partial, line_boom] (Some ''exit status 1''))
                      (NewTaskQueue 1)
                      \<lparr>item_Task = task1, item_Callback = Some handler_callback\<rparr> world1)) 1)
     = Some (TaskStatusFailed, ''python script error: boom'', [], [])"
proof -
  let ?e = "env_with [line_partial, line_boom] (Some ''exit status 1'')"
  from plan_task1 [of "[line_partial, line_boom]" "Some ''exit status 1''" task1]
  obtain config where plan: "execution_plan ?e task1 world1 = Ok config"
    by (auto simp: world1_def)
  have ex: "wait_err (run ?e config) = Some ''exit status 1''" by (simp add: env_with_simps)
  have d: "decoded (json_event ?e) (stdout_lines (run ?e config))
      = [\<lparr>event_Type = ''content'', event_Content = ''partial'', event_Details = None\<rparr>,
         \<lparr>event_Type = ''error'', event_Content = ''boom'', event_Details = None\<rparr>]"
    by (simp add: env_with_simps decoded_simps json_table_simps)
  have nc: "\<forall>ev \<in> set (decoded (json_event ?e) (stdout_lines (run ?e config))).
           event_Type ev \<noteq> ''cancelled''"
    unfolding d by simp
  have le: "last_error [] (decoded (json_event ?e) (stdout_lines (run ?e config))) = ''boom''"
    unfolding d by (simp add: last_error_def)
  then have le': "last_error [] (decoded (json_event ?e) (stdout_lines (run ?e config))) \<noteq> []"
    by simp
  from processTask_runner_error [OF plan starts_env_with ex nc le', of "NewTaskQueue 1"]
  show ?thesis unfolding le by (simp add: task1_def task_for_def)
qed

text \<open>
  C2, amended: when the plan of a task is resolved and the runner starts, emits a stream
  without a \<open>cancelled\<close> event in which the last \<open>error\<close> event has a non-empty message (so
  after a content event followed by an error event), and exits non-zero, the task ends failed
  with the error "python script error: " followed by that message; the accumulated content is
  discarded, the result of the task staying as it was; and the event lines are not kept: the
  event_logs of the task stay as they were.
\<close>

theorem C2_runner_error:
  "execution_plan e task w = Ok config \<and> starts e (run e config)
   \<and> wait_err (run e config) = Some x
   \<and> (\<forall>ev \<in> set (decoded (json_event e) (stdout_lines (run e config))).
         event_Type ev \<noteq> ''cancelled'')
   \<and> last_error [] (decoded (json_event e) (stdout_lines (run e config))) \<noteq> [] \<longrightarrow>
   fst (Execute e task (Some handler_callback) w)
     = Err (''python script error: ''
            @ last_error [] (decoded (json_event e) (stdout_lines (run e config))))
   \<and> map_option (\<lambda>t. (task_Status t, task_Error t, task_Result t, task_EventLogs t))
       (db_tasks (snd (processTask e q \<lparr>item_Task = task, item_Callback = Some handler_callback\<rparr> w))
          (task_ID task))
     = Some (TaskStatusFailed,
             ''python script error: ''
               @ last_error [] (decoded (json_event e) (stdout_lines (run e config))),
             task_Result task, task_EventLogs task)"
proof (intro impI, elim conjE)
  assume plan: "execution_plan e task w = Ok config"
    and st: "starts e (run e config)" and ex: "wait_err (run e config) = Some x"
    and nc: "\<forall>ev \<in> set (decoded (json_event e) (stdout_lines (run e config))).
           event_Type ev \<noteq> ''cancelled''"
    and le: "last_error [] (decoded (json_event e) (stdout_lines (run e config))) \<noteq> []"
  from Execute_runner_error [OF plan st ex nc le]
  have "fst (Execute e task (Some handler_callback) w)
     = Err (''python script error: ''
            @ last_error [] (decoded (json_event e) (stdout_lines (run e config))))"
    by auto
  with processTask_runner_error [OF plan st ex nc le, of q]
  show "fst (Execute e task (Some handler_callback) w)
     = Err (''python script error: ''
            @ last_error [] (decoded (json_event e) (stdout_lines (run e config))))
   \<and> map_option (\<lambda>t. (task_Status t, task_Error t, task_Result t, task_EventLogs t))
       (db_tasks (snd (processTask e q \<lparr>item_Task = task, item_Callback = Some handler_callback\<rparr> w))
          (task_ID task))
     = Some (TaskStatusFailed,
             ''python script error: ''
               @ last_error [] (decoded (json_event e) (stdout_lines (run e config))),
             task_Result task, task_EventLogs task)"
    by simp
qed

theorem C2_runner_error_witness:
  "fst (Execute (env_with [line_partial, line_boom] (Some ''exit status 1'')) task1
          (Some handler_callback) world1) = Err ''python script error: boom''
   \<and> map_option task_Status
       (db_tasks (snd (processTask (env_with [line_partial, line_boom] (Some ''exit status 1''))
                      full_queue
                      \<lparr>item_Task = task1, item_Callback = Some handler_callback\<rparr> world1)) 1)
     = Some TaskStatusFailed"
proof -
  let ?e = "env_with [line_partial, line_boom] (Some ''exit status 1'')"
  from plan_task1 [of "[line_partial, line_boom]" "Some ''exit status 1''" task1]
  obtain config where plan: "execution_plan ?e task1 world1 = Ok config"
    by (auto simp: world1_def)
  have ex: "wait_err (run ?e config) = Some ''exit status 1''" by (simp add: env_with_simps)
  have d: "decoded (json_event ?e) (stdout_lines (run ?e config))
      = [\<lparr>event_Type = ''content'', event_Content = ''partial'', event_Details = None\<rparr>,
         \<lparr>event_Type = ''error'', event_Content = ''boom'', event_Details = None\<rparr>]"
    by (simp add: env_with_simps decoded_simps json_table_simps)
  have nc: "\<forall>ev \<in> set (decoded (json_event ?e) (stdout_lines (run ?e config))).
           event_Type ev \<noteq> ''cancelled''"
    unfolding d by simp
  have le: "last_error [] (decoded (json_event ?e) (stdout_lines (run ?e config))) = ''boom''"
    unfolding d by (simp add: last_error_def)
  then have le': "last_error [] (decoded (json_event ?e) (stdout_lines (run ?e config))) \<noteq> []"
    by simp
  have id: "task_ID task1 = 1" by (simp add: task1_def task_for_simps)
  from C2_runner_error [of ?e task1 world1 config "''exit status 1''" full_queue]
    plan starts_env_with [of _ _ config] ex nc le'
  show ?thesis unfolding le id by (simp add: option.map_comp comp_def map_option_case split: option.splits)
qed

subsection \<open>The status of a task\<close>





end
